theory Spec2Isabelle
  imports Main "HOL-Library.AList"
begin

section \<open>JavaScript values, objects and the store\<close>

text \<open>
  The logger of \<^verbatim>\<open>src/lib/util/log.js\<close> is dynamically typed, so its arguments are
  modelled as values of one type \<open>jsval\<close>.

  \<^item> A number is \<open>NaN\<close>, an infinity, or \<open>Fin n\<close> for the number whose value is the integer
    \<open>n\<close>; fractional numbers and the negative zero are not values of the model. The
    model is exact for every \<open>n\<close> of magnitude below \<open>2 ^ 53\<close>: beyond, the language
    rounds the result of \<^verbatim>\<open>parseInt\<close>, and from \<open>10 ^ 21\<close> on it prints a number with an
    exponent, which \<open>num_toString\<close> does not.
  \<^item> A string is a list of characters, and the model is that of ASCII strings:
    \<open>toUpperCase\<close> maps the letters a to z to A to Z and leaves every other character as
    it is, and the white space of the number grammar is the ASCII white space.
  \<^item> An object lives in the store and is referred to by its address, so that two
    references to one object see each other's writes. An object is its own enumerable
    properties, in the order \<^verbatim>\<open>Object.keys\<close> lists them, and the function that
    \<^verbatim>\<open>obj.toString\<close> yields (the built-in of \<^verbatim>\<open>Object.prototype\<close>, or an override of
    it that \<^verbatim>\<open>Object.keys\<close> does not list, which reads the properties of \<^verbatim>\<open>this\<close>). But
    for that override, what an object inherits is \<^verbatim>\<open>Object.prototype\<close> as the language
    defines it, with nothing added to it: a property that an object does not own is
    looked up there (\<open>read_property\<close>), and a write to the key \<^verbatim>\<open>__proto__\<close> that the
    object does not own goes to the setter it inherits (\<open>set_property\<close>).
  \<^item> A function is not a value of \<open>jsval\<close>, and neither is an object with a \<^verbatim>\<open>valueOf\<close>
    or a \<^verbatim>\<open>toUpperCase\<close> of its own. The functions that the code can meet are accounted
    for where it meets them: the built-ins that a level table inherits (\<open>Inherited\<close>), the
    \<^verbatim>\<open>toString\<close> of a component (\<open>tostring_method\<close>) and the \<^verbatim>\<open>clone\<close> of an error
    (\<open>clone_property\<close>).
\<close>

type_synonym addr = nat

datatype jsnum = NaN | PInf | NInf | Fin int

datatype jsval = JUndefined | JNull | JBool bool | JNum jsnum | JStr string | JRef addr

type_synonym properties = "(string \<times> jsval) list"

datatype tostring_method = BuiltinToString | OwnToString "properties \<Rightarrow> string"

record jsobj =
  props :: properties
  toStringMethod :: tostring_method

record store =
  objs :: "addr \<Rightarrow> jsobj"
  nxt :: addr

text \<open>A value handed to \<^verbatim>\<open>Log.prototype.throw\<close> as the error: \<^verbatim>\<open>undefined\<close>, \<^verbatim>\<open>null\<close>,
  another primitive, or an object. An object is what it is (\<open>payload\<close>) and what its
  property \<^verbatim>\<open>clone\<close> holds: nothing or a falsy value (\<open>NoClone\<close>), a function of the custom
  message (\<open>CloneFunction\<close>), or a truthy value that is not a function (\<open>CloneNotCallable\<close>).
  The result of a \<^verbatim>\<open>clone\<close> function is again any such value; a \<^verbatim>\<open>clone\<close> that raises
  instead of returning is not modelled.\<close>

datatype 'e clone_property = NoClone | CloneFunction "jsval \<Rightarrow> 'e" | CloneNotCallable

datatype jserror =
    ErrUndefined
  | ErrNull
  | ErrBool bool
  | ErrNum jsnum
  | ErrStr string
  | ErrObject (payload: jsval) (clone: "jserror clone_property")

text \<open>Errors raised by the code: \<^verbatim>\<open>E.INVALID_ARGUMENT.clone(message)\<close>, the engine's
  \<^verbatim>\<open>TypeError\<close>, and a value thrown by \<^verbatim>\<open>Log.prototype.throw\<close>.\<close>

datatype exn = InvalidArgument string | TypeError | Thrown jserror

text \<open>Modelled from the spec: \<^verbatim>\<open>constants.twilioErrors\<close> is not among the sources; the spec
  describes \<^verbatim>\<open>INVALID_ARGUMENT\<close> as an error factory of kind InvalidArgument with a
  "clone with message" capability.\<close>

definition INVALID_ARGUMENT_clone :: "string \<Rightarrow> exn" where
  "INVALID_ARGUMENT_clone msg = InvalidArgument msg"

subsection \<open>Built-in operations of the language\<close>

fun typeof :: "jsval \<Rightarrow> string" where
  "typeof JUndefined = ''undefined''"
| "typeof JNull = ''object''"
| "typeof (JBool b) = ''boolean''"
| "typeof (JNum n) = ''number''"
| "typeof (JStr s) = ''string''"
| "typeof (JRef a) = ''object''"

fun truthy :: "jsval \<Rightarrow> bool" where
  "truthy JUndefined = False"
| "truthy JNull = False"
| "truthy (JBool b) = b"
| "truthy (JNum NaN) = False"
| "truthy (JNum (Fin n)) = (n \<noteq> 0)"
| "truthy (JNum x) = True"
| "truthy (JStr s) = (s \<noteq> [])"
| "truthy (JRef a) = True"

text \<open>\<open>a <= b\<close> on numbers: false as soon as one side is \<open>NaN\<close>.\<close>

fun num_le :: "jsnum \<Rightarrow> jsnum \<Rightarrow> bool" where
  "num_le NaN y = False"
| "num_le x NaN = False"
| "num_le NInf y = True"
| "num_le x PInf = True"
| "num_le PInf y = False"
| "num_le x NInf = False"
| "num_le (Fin a) (Fin b) = (a \<le> b)"

definition digit_char :: "nat \<Rightarrow> char" where
  "digit_char d = ''0123456789'' ! d"

fun show_nat :: "nat \<Rightarrow> string" where
  "show_nat n = (if n < 10 then [digit_char n] else show_nat (n div 10) @ [digit_char (n mod 10)])"

declare show_nat.simps [simp del]

definition show_int :: "int \<Rightarrow> string" where
  "show_int i = (if i < 0 then CHR ''-'' # show_nat (nat (- i)) else show_nat (nat i))"

fun num_toString :: "jsnum \<Rightarrow> string" where
  "num_toString NaN = ''NaN''"
| "num_toString PInf = ''Infinity''"
| "num_toString NInf = ''-Infinity''"
| "num_toString (Fin n) = show_int n"

text \<open>The own enumerable properties of a value: those of the object a reference points
  to; the indexed characters of a string; none for the other primitives.\<close>

fun own_props :: "store \<Rightarrow> jsval \<Rightarrow> properties" where
  "own_props st (JRef a) = props (objs st a)"
| "own_props st (JStr s) = zip (map show_nat [0..<length s]) (map (\<lambda>c. JStr [c]) s)"
| "own_props st v = []"

text \<open>\<^verbatim>\<open>Object.keys(v)\<close> raises on \<^verbatim>\<open>undefined\<close> and \<^verbatim>\<open>null\<close>.\<close>

fun Object_keys :: "store \<Rightarrow> jsval \<Rightarrow> exn + string list" where
  "Object_keys st JUndefined = Inl TypeError"
| "Object_keys st JNull = Inl TypeError"
| "Object_keys st v = Inr (map fst (own_props st v))"

text \<open>\<^verbatim>\<open>v[k]\<close> for a key \<open>k\<close> that \<^verbatim>\<open>Object.keys(v)\<close> lists: the read of the callback of
  \<open>validateLogLevels\<close> and of \<^verbatim>\<open>Object.assign\<close>. An own property is found before the
  prototype is looked at, so the value is the one the object holds. (For a key that the
  value does not own the function yields \<^verbatim>\<open>undefined\<close>; the code reads no such key
  through it.)\<close>

definition get_property :: "store \<Rightarrow> jsval \<Rightarrow> string \<Rightarrow> jsval" where
  "get_property st v k = (case map_of (own_props st v) k of Some x \<Rightarrow> x | None \<Rightarrow> JUndefined)"

text \<open>The names of the properties of \<^verbatim>\<open>Object.prototype\<close>. Each holds a built-in
  function, but for \<^verbatim>\<open>__proto__\<close>, an accessor: read on a plain object it yields
  \<^verbatim>\<open>Object.prototype\<close> itself, and written with a value that is neither an object nor
  \<^verbatim>\<open>null\<close> it does nothing.\<close>

definition Object_prototype_names :: "string list" where
  "Object_prototype_names =
     [''constructor'', ''__defineGetter__'', ''__defineSetter__'', ''hasOwnProperty'',
      ''__lookupGetter__'', ''__lookupSetter__'', ''isPrototypeOf'', ''propertyIsEnumerable'',
      ''toString'', ''valueOf'', ''__proto__'', ''toLocaleString'']"

text \<open>\<^verbatim>\<open>obj[k]\<close> for any key \<open>k\<close>, already a string, of the object at address \<open>a\<close>: the
  value of the own property when there is one; else what \<^verbatim>\<open>Object.prototype\<close> has under
  that name, a built-in function or \<^verbatim>\<open>Object.prototype\<close> itself (\<open>Inherited\<close>); else
  \<^verbatim>\<open>undefined\<close>.\<close>

datatype property_read = Data jsval | Inherited

definition read_property :: "store \<Rightarrow> addr \<Rightarrow> string \<Rightarrow> property_read" where
  "read_property st a k =
     (case map_of (props (objs st a)) k of
        Some x \<Rightarrow> Data x
      | None \<Rightarrow> if k \<in> set Object_prototype_names then Inherited else Data JUndefined)"

text \<open>\<^verbatim>\<open>obj[k] = v\<close>: an existing property keeps its place, a new one goes last. (An
  engine lists a new key that is an array index, such as \<^verbatim>\<open>'7'\<close>, before the other keys; the
  model does not tell such keys apart. The order of the keys of a table only decides
  which of several invalid entries validation reports first.) The key \<^verbatim>\<open>__proto__\<close>,
  when the object does not own it, reaches the setter of \<^verbatim>\<open>Object.prototype\<close> instead:
  no property is created, and the object stays as it is when the value is a string, a
  number, a boolean or \<^verbatim>\<open>undefined\<close>. (Given an object or \<^verbatim>\<open>null\<close> the setter replaces the
  prototype, which the store does not record; the logger writes through
  \<^verbatim>\<open>Object.assign\<close> only, after validation, and so writes strings only.) The other
  properties of \<^verbatim>\<open>Object.prototype\<close> are writable data properties, which an assignment
  shadows with an own property.\<close>

definition set_property :: "store \<Rightarrow> addr \<Rightarrow> string \<Rightarrow> jsval \<Rightarrow> store" where
  "set_property st a k v =
     (if k = ''__proto__'' \<and> k \<notin> set (map fst (props (objs st a))) then st
      else st\<lparr>objs := (objs st)(a := (objs st a)\<lparr>props := AList.update k v (props (objs st a))\<rparr>)\<rparr>)"

text \<open>The object literal \<^verbatim>\<open>{}\<close>: a fresh object at the next free address.\<close>

definition new_object :: "store \<Rightarrow> store \<times> jsval" where
  "new_object st =
     (st\<lparr>objs := (objs st)(nxt st := \<lparr>props = [], toStringMethod = BuiltinToString\<rparr>),
         nxt := Suc (nxt st)\<rparr>,
      JRef (nxt st))"

text \<open>\<^verbatim>\<open>v.toString\<close>: the function found on the value. A primitive finds the built-in
  of its prototype.\<close>

fun get_toString :: "store \<Rightarrow> jsval \<Rightarrow> tostring_method" where
  "get_toString st (JRef a) = toStringMethod (objs st a)"
| "get_toString st v = BuiltinToString"

fun builtin_toString :: "jsval \<Rightarrow> string" where
  "builtin_toString JUndefined = ''undefined''"
| "builtin_toString JNull = ''null''"
| "builtin_toString (JBool b) = (if b then ''true'' else ''false'')"
| "builtin_toString (JNum n) = num_toString n"
| "builtin_toString (JStr s) = s"
| "builtin_toString (JRef a) = ''[object Object]''"

text \<open>Calling a \<^verbatim>\<open>toString\<close> function with \<open>v\<close> as \<^verbatim>\<open>this\<close>, in the store of the moment
  of the call.\<close>

fun call_toString :: "store \<Rightarrow> tostring_method \<Rightarrow> jsval \<Rightarrow> string" where
  "call_toString st BuiltinToString v = builtin_toString v"
| "call_toString st (OwnToString f) v = f (own_props st v)"

text \<open>\<^verbatim>\<open>ToString\<close>, as used for property keys and by \<^verbatim>\<open>parseInt\<close>.\<close>

definition ToString :: "store \<Rightarrow> jsval \<Rightarrow> string" where
  "ToString st v = call_toString st (get_toString st v) v"

definition lower_letters :: string where
  "lower_letters = ''abcdefghijklmnopqrstuvwxyz''"

definition upper_letters :: string where
  "upper_letters = ''ABCDEFGHIJKLMNOPQRSTUVWXYZ''"

definition toUpperCase_char :: "char \<Rightarrow> char" where
  "toUpperCase_char c = (case map_of (zip lower_letters upper_letters) c of Some u \<Rightarrow> u | None \<Rightarrow> c)"

definition toUpperCase :: "string \<Rightarrow> string" where
  "toUpperCase s = map toUpperCase_char s"

text \<open>The number grammar of strings (\<^verbatim>\<open>StringNumericLiteral\<close>): what \<^verbatim>\<open>isNaN\<close> accepts.\<close>

definition isWhiteSpace :: "char \<Rightarrow> bool" where
  "isWhiteSpace c = (c \<in> set [CHR 0x09, CHR 0x0A, CHR 0x0B, CHR 0x0C, CHR 0x0D, CHR 0x20])"

definition isDigit :: "char \<Rightarrow> bool" where
  "isDigit c = (c \<in> set ''0123456789'')"

definition trimStart :: "string \<Rightarrow> string" where
  "trimStart s = dropWhile isWhiteSpace s"

definition trim :: "string \<Rightarrow> string" where
  "trim s = rev (dropWhile isWhiteSpace (rev (dropWhile isWhiteSpace s)))"

definition digits1 :: "string \<Rightarrow> bool" where
  "digits1 s = (s \<noteq> [] \<and> list_all isDigit s)"

fun signedInteger :: "string \<Rightarrow> bool" where
  "signedInteger [] = False"
| "signedInteger (c # cs) = (if c = CHR ''+'' \<or> c = CHR ''-'' then digits1 cs else digits1 (c # cs))"

fun exponentPart_opt :: "string \<Rightarrow> bool" where
  "exponentPart_opt [] = True"
| "exponentPart_opt (c # cs) = ((c = CHR ''e'' \<or> c = CHR ''E'') \<and> signedInteger cs)"

definition strUnsignedDecimalLiteral :: "string \<Rightarrow> bool" where
  "strUnsignedDecimalLiteral u =
     (u = ''Infinity'' \<or>
      (let ip = takeWhile isDigit u; r = dropWhile isDigit u in
       case r of
         [] \<Rightarrow> ip \<noteq> []
       | c # r2 \<Rightarrow>
           if c = CHR ''.''
           then (ip \<noteq> [] \<or> takeWhile isDigit r2 \<noteq> []) \<and> exponentPart_opt (dropWhile isDigit r2)
           else ip \<noteq> [] \<and> exponentPart_opt r))"

fun strDecimalLiteral :: "string \<Rightarrow> bool" where
  "strDecimalLiteral [] = False"
| "strDecimalLiteral (c # cs) =
     (if c = CHR ''+'' \<or> c = CHR ''-'' then strUnsignedDecimalLiteral cs
      else strUnsignedDecimalLiteral (c # cs))"

definition radix_digits :: "string \<Rightarrow> string \<Rightarrow> bool" where
  "radix_digits allowed s = (s \<noteq> [] \<and> list_all (\<lambda>c. c \<in> set allowed) s)"

fun nonDecimalIntegerLiteral :: "string \<Rightarrow> bool" where
  "nonDecimalIntegerLiteral (z # x # ds) =
     (z = CHR ''0'' \<and>
      (if x = CHR ''x'' \<or> x = CHR ''X'' then radix_digits ''0123456789abcdefABCDEF'' ds
       else if x = CHR ''o'' \<or> x = CHR ''O'' then radix_digits ''01234567'' ds
       else if x = CHR ''b'' \<or> x = CHR ''B'' then radix_digits ''01'' ds
       else False))"
| "nonDecimalIntegerLiteral s = False"

text \<open>\<open>str_numeric s\<close>: \<^verbatim>\<open>Number(s)\<close> is not \<^verbatim>\<open>NaN\<close>. The empty and the all-blank string
  convert to 0.\<close>

definition str_numeric :: "string \<Rightarrow> bool" where
  "str_numeric s = (let t = trim s in t = [] \<or> strDecimalLiteral t \<or> nonDecimalIntegerLiteral t)"

text \<open>\<^verbatim>\<open>isNaN(v)\<close>: \<^verbatim>\<open>ToNumber(v)\<close> is \<^verbatim>\<open>NaN\<close>. An object converts through its
  \<^verbatim>\<open>toString\<close>.\<close>

fun isNaN :: "store \<Rightarrow> jsval \<Rightarrow> bool" where
  "isNaN st JUndefined = True"
| "isNaN st JNull = False"
| "isNaN st (JBool b) = False"
| "isNaN st (JNum n) = (n = NaN)"
| "isNaN st (JStr s) = (\<not> str_numeric s)"
| "isNaN st (JRef a) = (\<not> str_numeric (ToString st (JRef a)))"

text \<open>\<^verbatim>\<open>parseInt(v, 10)\<close>: the string of \<open>v\<close>, leading white space dropped, an optional
  sign, then the longest run of decimal digits; \<open>NaN\<close> when that run is empty. The result
  is the integer the digits denote (a number of the language rounds it once it exceeds
  \<open>2 ^ 53\<close>).\<close>

definition digit_val :: "char \<Rightarrow> int" where
  "digit_val c = int (of_char c) - 48"

definition digits_value :: "string \<Rightarrow> int" where
  "digits_value z = foldl (\<lambda>a c. 10 * a + digit_val c) 0 z"

definition parseInt_str :: "string \<Rightarrow> jsnum" where
  "parseInt_str s =
     (let t = trimStart s;
          neg = (t \<noteq> [] \<and> hd t = CHR ''-'');
          u = (if t \<noteq> [] \<and> (hd t = CHR ''+'' \<or> hd t = CHR ''-'') then tl t else t);
          z = takeWhile isDigit u
      in if z = [] then NaN else Fin ((if neg then - 1 else 1) * digits_value z))"

definition parseInt :: "store \<Rightarrow> jsval \<Rightarrow> jsnum" where
  "parseInt st v = parseInt_str (ToString st v)"

text \<open>\<^verbatim>\<open>v.toUpperCase()\<close>: only a string has the method; on \<^verbatim>\<open>undefined\<close> and
  \<^verbatim>\<open>null\<close> the property access raises, on the other values the call of \<^verbatim>\<open>undefined\<close>
  does.\<close>

fun call_toUpperCase :: "jsval \<Rightarrow> exn + string" where
  "call_toUpperCase (JStr s) = Inr (toUpperCase s)"
| "call_toUpperCase v = Inl TypeError"

text \<open>\<^verbatim>\<open>Array.prototype.forEach\<close> with a callback that may raise.\<close>

fun forEach :: "('a \<Rightarrow> exn + unit) \<Rightarrow> 'a list \<Rightarrow> exn + unit" where
  "forEach f [] = Inr ()"
| "forEach f (x # xs) = (case f x of Inl e \<Rightarrow> Inl e | Inr u \<Rightarrow> forEach f xs)"

fun join :: "string \<Rightarrow> string list \<Rightarrow> string" where
  "join sep [] = []"
| "join sep [x] = x"
| "join sep (x # y # ys) = x @ sep @ join sep (y # ys)"

text \<open>\<^verbatim>\<open>s.split(c)\<close> for a one-character separator.\<close>

fun split :: "char \<Rightarrow> string \<Rightarrow> string list" where
  "split c [] = [[]]"
| "split c (x # xs) =
     (if x = c then [] # split c xs
      else (case split c xs of [] \<Rightarrow> [[x]] | p # ps \<Rightarrow> (x # p) # ps))"

text \<open>\<^verbatim>\<open>Object.assign(target, source)\<close>: the own enumerable keys of the source are listed
  once, then each is read from the source and written to the target by an ordinary
  assignment, in turn. \<^verbatim>\<open>undefined\<close> and \<^verbatim>\<open>null\<close> sources are skipped.\<close>

fun assign_keys :: "store \<Rightarrow> addr \<Rightarrow> jsval \<Rightarrow> string list \<Rightarrow> store" where
  "assign_keys st target source [] = st"
| "assign_keys st target source (k # ks) =
     assign_keys (set_property st target k (get_property st source k)) target source ks"

fun Object_assign :: "store \<Rightarrow> addr \<Rightarrow> jsval \<Rightarrow> store" where
  "Object_assign st target JUndefined = st"
| "Object_assign st target JNull = st"
| "Object_assign st target source = assign_keys st target source (map fst (own_props st source))"

section \<open>The logger\<close>

subsection \<open>Singleton constants\<close>

datatype sink = console_log | console_info | console_warn | console_error | noop

record levelSpec =
  name :: string
  logFn :: sink

definition Log_DEBUG :: jsnum where "Log_DEBUG = Fin 0"
definition Log_INFO :: jsnum where "Log_INFO = Fin 1"
definition Log_WARN :: jsnum where "Log_WARN = Fin 2"
definition Log_ERROR :: jsnum where "Log_ERROR = Fin 3"
definition Log_OFF :: jsnum where "Log_OFF = Fin 4"

definition Log_levels :: "levelSpec list" where
  "Log_levels =
     [\<lparr>name = ''DEBUG'', logFn = console_log\<rparr>,
      \<lparr>name = ''INFO'', logFn = console_info\<rparr>,
      \<lparr>name = ''WARN'', logFn = console_warn\<rparr>,
      \<lparr>name = ''ERROR'', logFn = console_error\<rparr>,
      \<lparr>name = ''OFF'', logFn = noop\<rparr>]"

text \<open>\<^verbatim>\<open>Log[name]\<close> for the five constants; any other name reads \<^verbatim>\<open>undefined\<close>, which
  compares as \<open>NaN\<close> does (\<open>getLevelByName\<close> reads the property only after
  \<open>validateLogLevel\<close> has accepted the name).\<close>

definition Log_property :: "string \<Rightarrow> jsnum" where
  "Log_property k =
     (case map_of [(''DEBUG'', Log_DEBUG), (''INFO'', Log_INFO), (''WARN'', Log_WARN),
                   (''ERROR'', Log_ERROR), (''OFF'', Log_OFF)] k of
        Some n \<Rightarrow> n
      | None \<Rightarrow> NaN)"

text \<open>\<^verbatim>\<open>Log._levels[logLevel]\<close> for a number, which is what \<open>log\<close> documents its first
  parameter to be: the array has the indices 0 to 4.\<close>

definition Log_levels_at :: "jsnum \<Rightarrow> levelSpec option" where
  "Log_levels_at logLevel =
     (case logLevel of
        Fin i \<Rightarrow> if 0 \<le> i \<and> i < int (length Log_levels) then Some (Log_levels ! nat i) else None
      | _ \<Rightarrow> None)"

text \<open>\<^verbatim>\<open>LOG_LEVELS_SET\<close> has one key per level name. The \<^verbatim>\<open>in\<close> of \<open>validateLogLevel\<close> is
  only ever asked about upper-cased strings, and every property name that
  \<^verbatim>\<open>Object.prototype\<close> adds holds a lower-case letter.\<close>

definition LOG_LEVELS_SET :: "(string \<times> bool) list" where
  "LOG_LEVELS_SET = map (\<lambda>level. (name level, True)) Log_levels"

definition LOG_LEVEL_NAMES :: "string list" where
  "LOG_LEVEL_NAMES = map name Log_levels"

definition INVALID_LOG_LEVEL_MESSAGE :: string where
  "INVALID_LOG_LEVEL_MESSAGE = ''Log level must be one of: ['' @ join '','' LOG_LEVEL_NAMES @ '']''"

subsection \<open>Validation\<close>

definition validateLogLevel :: "string \<Rightarrow> exn + unit" where
  "validateLogLevel level =
     (if \<not> (level \<in> set (map fst LOG_LEVELS_SET))
      then Inl (INVALID_ARGUMENT_clone INVALID_LOG_LEVEL_MESSAGE)
      else Inr ())"

definition validateLogLevels :: "store \<Rightarrow> jsval \<Rightarrow> exn + unit" where
  "validateLogLevels st levels =
     (case Object_keys st levels of
        Inl e \<Rightarrow> Inl e
      | Inr ks \<Rightarrow>
          forEach (\<lambda>moduleName.
              case call_toUpperCase (get_property st levels moduleName) of
                Inl e \<Rightarrow> Inl e
              | Inr level \<Rightarrow> validateLogLevel level) ks)"

definition getLevelByName :: "store \<Rightarrow> jsval \<Rightarrow> exn + jsnum" where
  "getLevelByName st nm =
     (if \<not> isNaN st nm then Inr (parseInt st nm)
      else (case call_toUpperCase nm of
              Inl e \<Rightarrow> Inl e
            | Inr nm' \<Rightarrow>
                (case validateLogLevel nm' of
                   Inl e \<Rightarrow> Inl e
                 | Inr u \<Rightarrow> Inr (Log_property nm'))))"

subsection \<open>Instances\<close>

text \<open>What the constructor defines on \<^verbatim>\<open>this\<close>: \<open>logLevels\<close> is the address of the
  object that both \<^verbatim>\<open>this._logLevels\<close> and the \<^verbatim>\<open>logLevels\<close> of the getter's closure refer
  to, \<open>moduleName\<close> the closure's module name, and the getter of \<^verbatim>\<open>name\<close> is
  \<^verbatim>\<open>component.toString\<close> as found at construction (\<open>name_function\<close>), bound to the
  component (\<open>name_this\<close>).\<close>

record log_inst =
  moduleName :: jsval
  logLevels :: addr
  name_function :: tostring_method
  name_this :: jsval

text \<open>The constructor. Without \<^verbatim>\<open>new\<close> it calls itself with \<^verbatim>\<open>new\<close> and the same
  arguments, so one function models both. It returns the store as well: the literal
  \<^verbatim>\<open>{}\<close> allocates. A value whose \<^verbatim>\<open>typeof\<close> is \<^verbatim>\<open>'object'\<close> and that
  \<open>validateLogLevels\<close> accepts is a reference (\<^verbatim>\<open>Object.keys(null)\<close> raises), so the
  last case of the definition is never reached.\<close>

definition Log :: "store \<Rightarrow> jsval \<Rightarrow> jsval \<Rightarrow> jsval \<Rightarrow> store \<times> (exn + log_inst)" where
  "Log st moduleName' component logLevels' =
     (if typeof moduleName' \<noteq> ''string'' \<and> truthy moduleName'
      then (st, Inl (INVALID_ARGUMENT_clone (''module name'' @ '' is not a string'')))
      else if \<not> truthy component
      then (st, Inl (INVALID_ARGUMENT_clone (''component'' @ '' is required'')))
      else
        let (st1, logLevels1) =
              (if typeof logLevels' \<noteq> ''object'' then new_object st else (st, logLevels'))
        in (case validateLogLevels st1 logLevels1 of
              Inl e \<Rightarrow> (st1, Inl e)
            | Inr u \<Rightarrow>
                (case logLevels1 of
                   JRef a \<Rightarrow>
                     (st1, Inr \<lparr>moduleName = moduleName', logLevels = a,
                               name_function = get_toString st1 component,
                               name_this = component\<rparr>)
                 | _ \<Rightarrow> (st1, Inl TypeError))))"

text \<open>The getters \<^verbatim>\<open>logLevel\<close> and \<^verbatim>\<open>name\<close>. \<open>DEFAULT_LOG_LEVEL\<close> comes from
  \<^verbatim>\<open>./constants\<close>, which is not among the sources: it is a parameter.

  The module name is any string (or a falsy value, which is turned into a string to
  serve as the key), so \<^verbatim>\<open>logLevels[moduleName]\<close> can find a property that the table
  inherits. What it then yields is a function or \<^verbatim>\<open>Object.prototype\<close>: it is truthy, so
  the default is not used; \<^verbatim>\<open>isNaN\<close> holds of it, as it converts to no number; and it has
  no \<^verbatim>\<open>toUpperCase\<close>, so \<open>getLevelByName\<close> raises a TypeError when it calls it.\<close>

definition logLevel :: "jsval \<Rightarrow> store \<Rightarrow> log_inst \<Rightarrow> exn + jsnum" where
  "logLevel DEFAULT_LOG_LEVEL st this =
     (case read_property st (logLevels this) (ToString st (moduleName this)) of
        Data v \<Rightarrow> getLevelByName st (if truthy v then v else DEFAULT_LOG_LEVEL)
      | Inherited \<Rightarrow> Inl TypeError)"

definition Log_name :: "store \<Rightarrow> log_inst \<Rightarrow> string" where
  "Log_name st this = call_toString st (name_function this) (name_this this)"

subsection \<open>Methods\<close>

definition createLog :: "store \<Rightarrow> log_inst \<Rightarrow> jsval \<Rightarrow> jsval \<Rightarrow> store \<times> (exn + log_inst)" where
  "createLog st this moduleName' component = Log st moduleName' component (JRef (logLevels this))"

text \<open>\<open>setLevels\<close> returns the store next to its outcome, so that what a failed call
  leaves behind can be stated.\<close>

definition setLevels :: "store \<Rightarrow> log_inst \<Rightarrow> jsval \<Rightarrow> store \<times> (exn + log_inst)" where
  "setLevels st this levels =
     (case validateLogLevels st levels of
        Inl e \<Rightarrow> (st, Inl e)
      | Inr u \<Rightarrow> (Object_assign st (logLevels this) levels, Inr this))"

text \<open>What a sink receives: the strings of the prefix, then the values of the message.
  \<^verbatim>\<open>prefix.concat(message)\<close> appends the elements of an array and any other value as
  one element.\<close>

datatype 'm arg = Text string | Value 'm

datatype 'm message = Array "'m list" | Single 'm

fun concat_message :: "'m arg list \<Rightarrow> 'm message \<Rightarrow> 'm arg list" where
  "concat_message prefix (Array ms) = prefix @ map Value ms"
| "concat_message prefix (Single m) = prefix @ [Value m]"

text \<open>\<open>log\<close> returns its outcome and the calls it made to the console, in order. The
  reading of the clock, \<^verbatim>\<open>new Date().toISOString()\<close>, is the parameter \<open>now\<close>.\<close>

definition log ::
  "jsval \<Rightarrow> string \<Rightarrow> store \<Rightarrow> log_inst \<Rightarrow> jsnum \<Rightarrow> 'm message
     \<Rightarrow> (exn + log_inst) \<times> (sink \<times> 'm arg list) list" where
  "log DEFAULT_LOG_LEVEL now st this logLevel' message =
     (case Log_levels_at logLevel' of
        None \<Rightarrow> (Inl (INVALID_ARGUMENT_clone ''Invalid log level''), [])
      | Some logSpec \<Rightarrow>
          (case logLevel DEFAULT_LOG_LEVEL st this of
             Inl e \<Rightarrow> (Inl e, [])
           | Inr current \<Rightarrow>
               if num_le current logLevel'
               then
                 let levelName = name logSpec;
                     prefix = split CHR ''T'' now @ [''|'', levelName, ''in'', Log_name st this @ '':'']
                 in (Inr this, [(logFn logSpec, concat_message (map Text prefix) message)])
               else (Inr this, [])))"


definition info :: "jsval \<Rightarrow> string \<Rightarrow> store \<Rightarrow> log_inst \<Rightarrow> 'm list
     \<Rightarrow> (exn + log_inst) \<times> (sink \<times> 'm arg list) list" where
  "info DEFAULT_LOG_LEVEL now st this arguments = log DEFAULT_LOG_LEVEL now st this Log_INFO (Array arguments)"


definition error :: "jsval \<Rightarrow> string \<Rightarrow> store \<Rightarrow> log_inst \<Rightarrow> 'm list
     \<Rightarrow> (exn + log_inst) \<times> (sink \<times> 'm arg list) list" where
  "error DEFAULT_LOG_LEVEL now st this arguments = log DEFAULT_LOG_LEVEL now st this Log_ERROR (Array arguments)"

text \<open>\<^verbatim>\<open>error.clone\<close>: the read raises on \<^verbatim>\<open>undefined\<close> and \<^verbatim>\<open>null\<close>; the other
  primitives have no such property.\<close>

fun read_clone :: "jserror \<Rightarrow> exn + jserror clone_property" where
  "read_clone ErrUndefined = Inl TypeError"
| "read_clone ErrNull = Inl TypeError"
| "read_clone (ErrObject p c) = Inr c"
| "read_clone err = Inr NoClone"

text \<open>\<^verbatim>\<open>if (error.clone) { error = error.clone(customMessage); }\<close>: the value of
  \<^verbatim>\<open>error\<close> after the statement. Calling a truthy \<^verbatim>\<open>clone\<close> that is not a function
  raises.\<close>

definition clone_if_supported :: "jserror \<Rightarrow> jsval \<Rightarrow> exn + jserror" where
  "clone_if_supported err customMessage =
     (case read_clone err of
        Inl e \<Rightarrow> Inl e
      | Inr NoClone \<Rightarrow> Inr err
      | Inr (CloneFunction f) \<Rightarrow> Inr (f customMessage)
      | Inr CloneNotCallable \<Rightarrow> Inl TypeError)"

text \<open>\<^verbatim>\<open>Log.prototype.throw\<close>. Its outcome is the error it raises (or the one that the
  clone step or \<open>log\<close> raised), next to the calls made to the console before.\<close>

definition throwFn ::
  "jsval \<Rightarrow> string \<Rightarrow> store \<Rightarrow> log_inst \<Rightarrow> jserror \<Rightarrow> jsval
     \<Rightarrow> (exn + log_inst) \<times> (sink \<times> jserror arg list) list" where
  "throwFn DEFAULT_LOG_LEVEL now st this err customMessage =
     (case clone_if_supported err customMessage of
        Inl e \<Rightarrow> (Inl e, [])
      | Inr err1 \<Rightarrow>
          (case log DEFAULT_LOG_LEVEL now st this Log_ERROR (Single err1) of
             (Inl e, out) \<Rightarrow> (Inl e, out)
           | (Inr u, out) \<Rightarrow> (Inl (Thrown err1), out)))"

section \<open>Notions used in the statements\<close>

definition letter :: "char \<Rightarrow> bool" where
  "letter c = (c \<in> set lower_letters \<or> c \<in> set upper_letters)"

text \<open>A value that \<open>validateLogLevels\<close> accepts as the level of a module: a string that
  upper-cases to one of the five names.\<close>

definition valid_level_value :: "jsval \<Rightarrow> bool" where
  "valid_level_value v = (case v of JStr s \<Rightarrow> toUpperCase s \<in> set LOG_LEVEL_NAMES | _ \<Rightarrow> False)"

text \<open>A table that holds valid levels only. The constructor and \<open>setLevels\<close> leave the
  table of an instance so.\<close>

definition valid_table :: "store \<Rightarrow> addr \<Rightarrow> bool" where
  "valid_table st t =
     (\<forall>k\<in>set (map fst (props (objs st t))). valid_level_value (get_property st (JRef t) k))"

text \<open>The body of the callback of \<open>validateLogLevels\<close>, applied to the value of one
  entry.\<close>

definition check_level_value :: "jsval \<Rightarrow> exn + unit" where
  "check_level_value v =
     (case call_toUpperCase v of Inl e \<Rightarrow> Inl e | Inr level \<Rightarrow> validateLogLevel level)"

text \<open>An assignment \<^verbatim>\<open>t[k] = v\<close> creates or updates an own property of the object \<open>t\<close>:
  the key is not \<^verbatim>\<open>__proto__\<close>, or the object owns a property of that name.\<close>

definition assignable :: "store \<Rightarrow> addr \<Rightarrow> string \<Rightarrow> bool" where
  "assignable st t k = (k \<noteq> ''__proto__'' \<or> k \<in> set (map fst (props (objs st t))))"

text \<open>The error cloned with the custom message when it has a \<^verbatim>\<open>clone\<close> function, the
  error itself otherwise.\<close>

fun raised_error :: "jserror \<Rightarrow> jsval \<Rightarrow> jserror" where
  "raised_error (ErrObject p (CloneFunction f)) m = f m"
| "raised_error err m = err"

text \<open>\<open>derived p c\<close>: \<open>c\<close> was returned by \<open>createLog\<close> called on \<open>p\<close>, or on an instance
  derived from \<open>p\<close>. \<open>relative a b\<close>: \<open>b\<close> is reached from \<open>a\<close> by going from an instance to
  one it created or to the one that created it, any number of times (ancestors,
  descendants, siblings).\<close>

inductive derived :: "log_inst \<Rightarrow> log_inst \<Rightarrow> bool" where
  child: "createLog st p m component = (st', Inr c) \<Longrightarrow> derived p c"
| descendant: "derived p q \<Longrightarrow> createLog st q m component = (st', Inr c) \<Longrightarrow> derived p c"

inductive relative :: "log_inst \<Rightarrow> log_inst \<Rightarrow> bool" where
  self: "relative a a"
| down: "relative a b \<Longrightarrow> createLog st b m component = (st', Inr c) \<Longrightarrow> relative a c"
| up: "relative a c \<Longrightarrow> createLog st b m component = (st', Inr c) \<Longrightarrow> relative a b"

subsection \<open>Stores and instances of the examples\<close>

text \<open>\<open>store_of obs\<close> holds the plain objects \<open>obs\<close> at the addresses 0, 1, ...\<close>

definition store_of :: "properties list \<Rightarrow> store" where
  "store_of obs =
     \<lparr>objs = (\<lambda>a. \<lparr>props = (if a < length obs then obs ! a else []),
                   toStringMethod = BuiltinToString\<rparr>),
      nxt = length obs\<rparr>"

definition store0 :: store where
  "store0 = store_of [[]]"

definition store1 :: store where
  "store1 = store_of
     [[], [],
      [(''media'', JStr ''bogus''), (''signaling'', JNum (Fin 2))],
      [(''signaling'', JNum (Fin 2)), (''media'', JStr ''bogus'')],
      [(''media'', JNum (Fin 2))],
      [(''media'', JStr ''warn''), (''signaling'', JStr ''Off'')],
      [(''media'', JStr ''off'')],
      [(''media'', JStr ''warn''), (''signaling'', JStr ''loud'')],
      [(''__proto__'', JStr ''debug'')]]"

text \<open>The object at address 8 of \<open>store1\<close> owns a property named \<^verbatim>\<open>__proto__\<close>, as
  \<^verbatim>\<open>JSON.parse('{"__proto__": "debug"}')\<close> does.

  An instance for the module \<^verbatim>\<open>'media'\<close> of a component that is the string
  \<^verbatim>\<open>'Room'\<close>, with the object at address 0 as its level table; children of it for the
  modules \<^verbatim>\<open>'signaling'\<close> and \<^verbatim>\<open>'__proto__'\<close>; and an instance whose table is the object
  at address 6.\<close>

definition inst0 :: log_inst where
  "inst0 = \<lparr>moduleName = JStr ''media'', logLevels = 0, name_function = BuiltinToString,
            name_this = JStr ''Room''\<rparr>"

definition inst_child :: log_inst where
  "inst_child = \<lparr>moduleName = JStr ''signaling'', logLevels = 0,
                 name_function = BuiltinToString, name_this = JStr ''Track''\<rparr>"

definition inst_proto :: log_inst where
  "inst_proto = \<lparr>moduleName = JStr ''__proto__'', logLevels = 0,
                 name_function = BuiltinToString, name_this = JStr ''Room''\<rparr>"

definition inst_off :: log_inst where
  "inst_off = \<lparr>moduleName = JStr ''media'', logLevels = 6, name_function = BuiltinToString,
               name_this = JStr ''Room''\<rparr>"

text \<open>A component whose \<^verbatim>\<open>toString\<close> prints its property \<^verbatim>\<open>sid\<close>, at address 2 of
  \<open>store_room\<close>, and the instance that \<open>Log\<close> builds for it.\<close>

definition room_toString :: "properties \<Rightarrow> string" where
  "room_toString ps = (case map_of ps ''sid'' of Some (JStr s) \<Rightarrow> ''Room '' @ s | _ \<Rightarrow> ''Room'')"

definition store_room :: store where
  "store_room =
     \<lparr>objs = (\<lambda>a. if a = 2
                   then \<lparr>props = [(''sid'', JStr ''A'')], toStringMethod = OwnToString room_toString\<rparr>
                   else \<lparr>props = [], toStringMethod = BuiltinToString\<rparr>),
      nxt = 3\<rparr>"

definition inst_room :: log_inst where
  "inst_room = \<lparr>moduleName = JStr ''media'', logLevels = 0,
                name_function = OwnToString room_toString, name_this = JRef 2\<rparr>"

section \<open>Level names and ranks\<close>

lemma LOG_LEVEL_NAMES_eq: "LOG_LEVEL_NAMES = [''DEBUG'', ''INFO'', ''WARN'', ''ERROR'', ''OFF'']"
  by (simp add: LOG_LEVEL_NAMES_def Log_levels_def)

lemma LOG_LEVELS_SET_keys: "map fst LOG_LEVELS_SET = LOG_LEVEL_NAMES"
  by (simp add: LOG_LEVELS_SET_def LOG_LEVEL_NAMES_def comp_def)

lemma INVALID_LOG_LEVEL_MESSAGE_eq:
  "INVALID_LOG_LEVEL_MESSAGE = ''Log level must be one of: [DEBUG,INFO,WARN,ERROR,OFF]''"
  by (simp add: INVALID_LOG_LEVEL_MESSAGE_def LOG_LEVEL_NAMES_eq)

lemma toUpperCase_char_upper: "toUpperCase_char c \<in> set upper_letters \<Longrightarrow> letter c"
proof (cases "map_of (zip lower_letters upper_letters) c")
  case None
  assume "toUpperCase_char c \<in> set upper_letters"
  with None show ?thesis by (simp add: toUpperCase_char_def letter_def)
next
  case (Some u)
  then have "(c, u) \<in> set (zip lower_letters upper_letters)" by (rule map_of_SomeD)
  then have "c \<in> set lower_letters" by (rule set_zip_leftD)
  then show ?thesis by (simp add: letter_def)
qed

lemma letter_plain:
  "letter c \<Longrightarrow> \<not> isWhiteSpace c \<and> \<not> isDigit c \<and> c \<noteq> CHR ''+'' \<and> c \<noteq> CHR ''-'' \<and> c \<noteq> CHR ''.'' \<and> c \<noteq> CHR ''0''"
  by (auto simp add: letter_def lower_letters_def upper_letters_def isWhiteSpace_def isDigit_def)

lemma trim_letters:
  assumes "s \<noteq> []" and "\<forall>c\<in>set s. letter c"
  shows "trim s = s"
proof -
  from assms have h: "\<not> isWhiteSpace (hd s)" by (simp add: letter_plain)
  from assms have "last s \<in> set s" by simp
  with assms have l: "\<not> isWhiteSpace (hd (rev s))" by (simp add: hd_rev letter_plain)
  from h have "dropWhile isWhiteSpace s = s" by (simp add: dropWhile_eq_self_iff)
  moreover from l have "dropWhile isWhiteSpace (rev s) = rev s" by (simp add: dropWhile_eq_self_iff)
  ultimately show ?thesis by (simp add: trim_def)
qed

text \<open>A non-empty string of letters other than \<^verbatim>\<open>Infinity\<close> is not a number.\<close>

lemma letters_not_numeric:
  assumes ne: "s \<noteq> []" and le: "\<forall>c\<in>set s. letter c" and inf: "s \<noteq> ''Infinity''"
  shows "\<not> str_numeric s"
proof -
  from ne obtain c cs where s: "s = c # cs" by (cases s) auto
  with le have c: "letter c" by simp
  note p = letter_plain [OF c]
  from p inf s have "\<not> strUnsignedDecimalLiteral (c # cs)"
    by (simp add: strUnsignedDecimalLiteral_def)
  with p have 1: "\<not> strDecimalLiteral (c # cs)" by simp
  from p have 2: "\<not> nonDecimalIntegerLiteral (c # cs)" by (cases cs) simp_all
  from ne le have "trim s = s" by (rule trim_letters)
  with 1 2 s show ?thesis by (simp add: str_numeric_def)
qed

lemma level_name_letters:
  assumes "toUpperCase s \<in> set LOG_LEVEL_NAMES"
  shows "s \<noteq> [] \<and> (\<forall>c\<in>set s. letter c) \<and> s \<noteq> ''Infinity''"
proof -
  from assms have u: "set (toUpperCase s) \<subseteq> set upper_letters" and n: "toUpperCase s \<noteq> []"
    by (auto simp add: LOG_LEVEL_NAMES_eq upper_letters_def)
  from n have 1: "s \<noteq> []" by (simp add: toUpperCase_def)
  have 2: "\<forall>c\<in>set s. letter c"
  proof
    fix c assume "c \<in> set s"
    then have "toUpperCase_char c \<in> set (toUpperCase s)" by (simp add: toUpperCase_def)
    with u show "letter c" by (auto intro: toUpperCase_char_upper)
  qed
  have "toUpperCase ''Infinity'' \<notin> set LOG_LEVEL_NAMES"
    by (simp add: LOG_LEVEL_NAMES_eq toUpperCase_def toUpperCase_char_def lower_letters_def upper_letters_def)
  with assms have 3: "s \<noteq> ''Infinity''" by auto
  from 1 2 3 show ?thesis by simp
qed

lemma level_name_isNaN: "toUpperCase s \<in> set LOG_LEVEL_NAMES \<Longrightarrow> isNaN st (JStr s)"
  using level_name_letters [of s] letters_not_numeric [of s] by simp

lemma getLevelByName_name:
  assumes "toUpperCase s \<in> set LOG_LEVEL_NAMES"
  shows "getLevelByName st (JStr s) = Inr (Log_property (toUpperCase s))"
  using assms level_name_isNaN [OF assms, of st]
  by (simp add: getLevelByName_def validateLogLevel_def LOG_LEVELS_SET_keys)

lemma getLevelByName_invalid:
  assumes "isNaN st (JStr s)" and "toUpperCase s \<notin> set LOG_LEVEL_NAMES"
  shows "getLevelByName st (JStr s) = Inl (InvalidArgument INVALID_LOG_LEVEL_MESSAGE)"
  using assms
  by (simp add: getLevelByName_def validateLogLevel_def LOG_LEVELS_SET_keys INVALID_ARGUMENT_clone_def)

subsection \<open>Facts about the examples\<close>

lemma store1_props:
  "props (objs store1 0) = []"
  "props (objs store1 2) = [(''media'', JStr ''bogus''), (''signaling'', JNum (Fin 2))]"
  "props (objs store1 3) = [(''signaling'', JNum (Fin 2)), (''media'', JStr ''bogus'')]"
  "props (objs store1 4) = [(''media'', JNum (Fin 2))]"
  "props (objs store1 5) = [(''media'', JStr ''warn''), (''signaling'', JStr ''Off'')]"
  "props (objs store1 6) = [(''media'', JStr ''off'')]"
  "props (objs store1 7) = [(''media'', JStr ''warn''), (''signaling'', JStr ''loud'')]"
  "props (objs store1 8) = [(''__proto__'', JStr ''debug'')]"
  by (simp_all add: store1_def store_of_def)

lemma toUpperCase_examples:
  "toUpperCase ''bogus'' = ''BOGUS''" "toUpperCase ''warn'' = ''WARN''"
  "toUpperCase ''Off'' = ''OFF''" "toUpperCase ''off'' = ''OFF''"
  "toUpperCase ''loud'' = ''LOUD''" "toUpperCase ''info'' = ''INFO''"
  "toUpperCase ''wArN'' = ''WARN''" "toUpperCase ''verbose'' = ''VERBOSE''"
  by (simp_all add: toUpperCase_def toUpperCase_char_def lower_letters_def upper_letters_def)

lemma Log_property_examples:
  "Log_property ''DEBUG'' = Fin 0" "Log_property ''INFO'' = Fin 1" "Log_property ''WARN'' = Fin 2"
  "Log_property ''ERROR'' = Fin 3" "Log_property ''OFF'' = Fin 4"
  by (simp_all add: Log_property_def Log_DEBUG_def Log_INFO_def Log_WARN_def Log_ERROR_def
      Log_OFF_def)

lemma valid_examples:
  "valid_level_value (JStr ''warn'')" "valid_level_value (JStr ''Off'')"
  "\<not> valid_level_value (JStr ''loud'')" "\<not> valid_level_value (JStr ''bogus'')"
  "\<not> valid_level_value (JNum (Fin 2))"
  by (simp_all add: valid_level_value_def toUpperCase_examples LOG_LEVEL_NAMES_eq)

lemma logLevel_examples:
  "logLevel (JStr ''info'') store1 inst0 = Inr (Fin 1)"
  "logLevel (JStr ''warn'') store1 inst_off = Inr (Fin 4)"
  by (simp_all add: logLevel_def inst0_def inst_off_def read_property_def store1_props ToString_def
      Object_prototype_names_def getLevelByName_name toUpperCase_examples LOG_LEVEL_NAMES_eq
      Log_property_examples)

lemma Log_name_inst0: "Log_name st inst0 = ''Room''"
  by (simp add: Log_name_def inst0_def)

subsection \<open>\<open>getLevelByName\<close>\<close>

text \<open>
  \<^bold>\<open>Claim C4.\<close> A string that upper-cases to a level name, whatever the case of its
  letters, makes \<open>getLevelByName\<close> return the rank of that name: \<^verbatim>\<open>DEBUG\<close> 0, \<^verbatim>\<open>INFO\<close> 1,
  \<^verbatim>\<open>WARN\<close> 2, \<^verbatim>\<open>ERROR\<close> 3, \<^verbatim>\<open>OFF\<close> 4. A value that \<^verbatim>\<open>isNaN\<close> does not reject (a number, a
  numeric string) makes it return \<^verbatim>\<open>parseInt(value, 10)\<close> as it is, with no check against
  the ranks 0 to 4. A string that \<^verbatim>\<open>isNaN\<close> rejects and that does not upper-case to a
  level name makes it fail with InvalidArgument and the message that lists the names.
\<close>

theorem getLevelByName_spec:
  "(toUpperCase s = ''DEBUG'' \<longrightarrow> getLevelByName st (JStr s) = Inr (Fin 0)) \<and>
   (toUpperCase s = ''INFO'' \<longrightarrow> getLevelByName st (JStr s) = Inr (Fin 1)) \<and>
   (toUpperCase s = ''WARN'' \<longrightarrow> getLevelByName st (JStr s) = Inr (Fin 2)) \<and>
   (toUpperCase s = ''ERROR'' \<longrightarrow> getLevelByName st (JStr s) = Inr (Fin 3)) \<and>
   (toUpperCase s = ''OFF'' \<longrightarrow> getLevelByName st (JStr s) = Inr (Fin 4)) \<and>
   (\<not> isNaN st v \<longrightarrow> getLevelByName st v = Inr (parseInt st v)) \<and>
   (isNaN st (JStr s) \<and> toUpperCase s \<notin> set LOG_LEVEL_NAMES \<longrightarrow>
      getLevelByName st (JStr s) = Inl (InvalidArgument INVALID_LOG_LEVEL_MESSAGE))"
proof -
  have names: "toUpperCase s \<in> set LOG_LEVEL_NAMES \<Longrightarrow>
      getLevelByName st (JStr s) = Inr (Log_property (toUpperCase s))"
    by (rule getLevelByName_name)
  have num: "\<not> isNaN st v \<Longrightarrow> getLevelByName st v = Inr (parseInt st v)"
    by (simp add: getLevelByName_def)
  show ?thesis
    using names num getLevelByName_invalid [of st s]
    by (auto simp add: LOG_LEVEL_NAMES_eq Log_property_def Log_DEBUG_def Log_INFO_def
        Log_WARN_def Log_ERROR_def Log_OFF_def)
qed

theorem getLevelByName_spec_witness:
  "getLevelByName store0 (JStr ''wArN'') = Inr (Fin 2) \<and>
   getLevelByName store0 (JStr ''99'') = Inr (Fin 99) \<and>
   getLevelByName store0 (JStr ''verbose'') = Inl (InvalidArgument INVALID_LOG_LEVEL_MESSAGE)"
proof -
  note u = toUpperCase_examples
  have n: "\<not> isNaN store0 (JStr ''99'')"
    by (simp add: str_numeric_def trim_def isWhiteSpace_def strUnsignedDecimalLiteral_def isDigit_def)
  have p: "parseInt store0 (JStr ''99'') = Fin 99"
    by (simp add: parseInt_def ToString_def parseInt_str_def trimStart_def isWhiteSpace_def
        isDigit_def digits_value_def digit_val_def)
  have v: "isNaN store0 (JStr ''verbose'')"
    by (simp add: str_numeric_def trim_def isWhiteSpace_def strUnsignedDecimalLiteral_def isDigit_def)
  from u n p v show ?thesis
    using getLevelByName_spec [of "''wArN''" store0 "JStr ''99''"]
      getLevelByName_spec [of "''verbose''" store0 "JStr ''99''"]
    by (simp add: LOG_LEVEL_NAMES_eq)
qed

section \<open>Dispatch\<close>

lemma Log_levels_at_None: "r \<notin> Fin ` {0..4} \<Longrightarrow> Log_levels_at r = None"
  by (cases r) (auto simp add: Log_levels_at_def Log_levels_def)


text \<open>
  \<^bold>\<open>Claim C5.\<close> A numeric rank other than 0, 1, 2, 3 and 4 (99, a negative number, \<open>NaN\<close>,
  an infinity) has no level descriptor, and \<open>log\<close> called with it fails with the
  InvalidArgument error \<^verbatim>\<open>'Invalid log level'\<close> and calls no sink, whatever the instance,
  the store and the default level are.
\<close>

theorem log_invalid_level:
  "r \<notin> Fin ` {0..4} \<Longrightarrow>
     Log_levels_at r = None \<and>
     log D now st this r msg = (Inl (InvalidArgument ''Invalid log level''), [])"
  by (simp add: Log_levels_at_None log_def INVALID_ARGUMENT_clone_def)

theorem log_invalid_level_witness:
  "Fin 99 \<notin> Fin ` {0..4} \<and>
   log (JStr ''debug'') ''2016-03-01T09:30:00.000Z'' store0 inst0 (Fin 99) (Single (JStr ''x''))
     = (Inl (InvalidArgument ''Invalid log level''), [])"
proof -
  have h: "Fin 99 \<notin> Fin ` {0..4}" by auto
  from h show ?thesis
    using log_invalid_level [OF h, of "JStr ''debug''" "''2016-03-01T09:30:00.000Z''" store0 inst0
        "Single (JStr ''x'')"]
    by simp
qed






section \<open>Validation of a level table\<close>

lemma check_level_value_eq:
  "check_level_value v =
     (if valid_level_value v then Inr ()
      else Inl (if typeof v = ''string'' then InvalidArgument INVALID_LOG_LEVEL_MESSAGE else TypeError))"
  by (cases v)
    (simp_all add: check_level_value_def valid_level_value_def validateLogLevel_def
      LOG_LEVELS_SET_keys INVALID_ARGUMENT_clone_def)

text \<open>\<open>forEach\<close> stops at the first element on which the callback raises.\<close>

lemma forEach_find:
  "forEach f xs = (case find (\<lambda>x. f x \<noteq> Inr ()) xs of None \<Rightarrow> Inr () | Some x \<Rightarrow> f x)"
proof (induction xs)
  case Nil
  show ?case by simp
next
  case (Cons x xs)
  show ?case
  proof (cases "f x")
    case (Inl e)
    then show ?thesis by simp
  next
    case (Inr u)
    with Cons show ?thesis by simp
  qed
qed

lemma find_Some_mem: "find P xs = Some x \<Longrightarrow> P x \<and> x \<in> set xs"
  by (induction xs) (auto split: if_splits)

text \<open>The outcome of \<open>validateLogLevels\<close> is decided by the first key, in the order of
  \<^verbatim>\<open>Object.keys\<close>, whose value is not a valid level.\<close>

lemma validateLogLevels_find:
  assumes "Object_keys st levels = Inr ks"
  shows "validateLogLevels st levels =
           (case find (\<lambda>k. \<not> valid_level_value (get_property st levels k)) ks of
              None \<Rightarrow> Inr ()
            | Some k \<Rightarrow>
                Inl (if typeof (get_property st levels k) = ''string''
                     then InvalidArgument INVALID_LOG_LEVEL_MESSAGE else TypeError))"
proof -
  have v: "validateLogLevels st levels = forEach (\<lambda>k. check_level_value (get_property st levels k)) ks"
    using assms by (simp add: validateLogLevels_def check_level_value_def)
  have f: "(\<lambda>k. check_level_value (get_property st levels k) \<noteq> Inr ())
             = (\<lambda>k. \<not> valid_level_value (get_property st levels k))"
    by (rule ext) (simp add: check_level_value_eq)
  show ?thesis
    unfolding v forEach_find f
    by (auto split: option.splits dest: find_Some_mem simp add: check_level_value_eq)
qed

lemma validateLogLevels_nullish:
  "Object_keys st levels = Inl e \<Longrightarrow> validateLogLevels st levels = Inl TypeError"
  by (cases levels) (simp_all add: validateLogLevels_def)

lemma validateLogLevels_ok_iff:
  "validateLogLevels st levels = Inr u \<longleftrightarrow>
     (\<exists>ks. Object_keys st levels = Inr ks \<and> (\<forall>k\<in>set ks. valid_level_value (get_property st levels k)))"
proof (cases "Object_keys st levels")
  case (Inl e)
  then show ?thesis by (simp add: validateLogLevels_nullish)
next
  case (Inr ks)
  then show ?thesis
    by (auto simp add: validateLogLevels_find find_None_iff split: option.splits
        dest: find_Some_mem)
qed

lemma validateLogLevels_errors:
  "validateLogLevels st levels = Inl e \<Longrightarrow>
     e = TypeError \<or> e = InvalidArgument INVALID_LOG_LEVEL_MESSAGE"
proof (cases "Object_keys st levels")
  case (Inl x)
  assume "validateLogLevels st levels = Inl e"
  with Inl show ?thesis by (simp add: validateLogLevels_nullish)
next
  case (Inr ks)
  assume "validateLogLevels st levels = Inl e"
  with Inr show ?thesis
    by (auto simp add: validateLogLevels_find split: option.splits if_splits)
qed

lemma typeof_object: "typeof v = ''object'' \<longleftrightarrow> v = JNull \<or> (\<exists>a. v = JRef a)"
  by (cases v) simp_all

text \<open>The last case of the definition of \<open>Log\<close> is not reached.\<close>

lemma validated_object_is_ref:
  "typeof v = ''object'' \<Longrightarrow> validateLogLevels st v = Inr u \<Longrightarrow> \<exists>a. v = JRef a"
  by (auto simp add: typeof_object validateLogLevels_def)

text \<open>A valid level is a non-empty string, and \<open>getLevelByName\<close> maps it to its rank.\<close>

lemma valid_level_value_level:
  assumes "valid_level_value v"
  shows "\<exists>s. v = JStr s \<and> toUpperCase s \<in> set LOG_LEVEL_NAMES \<and> truthy v \<and>
             getLevelByName st v = Inr (Log_property (toUpperCase s))"
proof -
  from assms obtain s where s: "v = JStr s" "toUpperCase s \<in> set LOG_LEVEL_NAMES"
    by (cases v) (auto simp add: valid_level_value_def)
  from s(2) have "s \<noteq> []" by (simp add: level_name_letters)
  with s show ?thesis by (simp add: getLevelByName_name)
qed

section \<open>Construction\<close>

lemma Log_after_checks:
  assumes "truthy component" and "typeof m = ''string'' \<or> \<not> truthy m"
  shows "snd (Log st m component lv) \<noteq> Inl (InvalidArgument ''component is required'') \<and>
         snd (Log st m component lv) \<noteq> Inl (InvalidArgument ''module name is not a string'')"
proof -
  obtain st1 lv1 where d: "(if typeof lv \<noteq> ''object'' then new_object st else (st, lv)) = (st1, lv1)"
    by (cases "if typeof lv \<noteq> ''object'' then new_object st else (st, lv)") auto
  show ?thesis
  proof (cases "validateLogLevels st1 lv1")
    case (Inl e)
    from validateLogLevels_errors [OF Inl] Inl assms d show ?thesis
      by (auto simp add: Log_def INVALID_LOG_LEVEL_MESSAGE_eq simp del: typeof.simps)
  next
    case (Inr u)
    with assms d show ?thesis
      by (auto simp add: Log_def split: jsval.splits simp del: typeof.simps)
  qed
qed

text \<open>
  \<^bold>\<open>Claim C6, as amended.\<close> The check of the module name comes first. So a falsy
  component always makes the construction fail with InvalidArgument, with the message
  \<^verbatim>\<open>'component is required'\<close> when the module name is a string or falsy and with
  \<^verbatim>\<open>'module name is not a string'\<close> when the module name is truthy and not a string. A
  module name that is truthy and not a string always makes it fail with InvalidArgument
  \<^verbatim>\<open>'module name is not a string'\<close>. With a truthy component and a module name that is a
  string or falsy, the outcome is neither of these two errors. The store is left as it
  was by both failures.
\<close>

theorem Log_argument_checks:
  "(\<not> truthy component \<longrightarrow>
      Log st m component lv =
        (st, Inl (InvalidArgument (if typeof m \<noteq> ''string'' \<and> truthy m
                                   then ''module name is not a string''
                                   else ''component is required'')))) \<and>
   (typeof m \<noteq> ''string'' \<and> truthy m \<longrightarrow>
      Log st m component lv = (st, Inl (InvalidArgument ''module name is not a string''))) \<and>
   (truthy component \<and> (typeof m = ''string'' \<or> \<not> truthy m) \<longrightarrow>
      snd (Log st m component lv) \<noteq> Inl (InvalidArgument ''component is required'') \<and>
      snd (Log st m component lv) \<noteq> Inl (InvalidArgument ''module name is not a string''))"
  using Log_after_checks [of component m st lv]
  by (simp add: Log_def INVALID_ARGUMENT_clone_def del: typeof.simps)

text \<open>The claim as it was stated fails: the component \<^verbatim>\<open>undefined\<close> with the module name 5
  is refused for the module name, not with \<^verbatim>\<open>'component is required'\<close>.\<close>

theorem Log_argument_checks_counterexample:
  "Log store0 (JNum (Fin 5)) JUndefined JUndefined
     = (store0, Inl (InvalidArgument ''module name is not a string''))"
  by (simp add: Log_def INVALID_ARGUMENT_clone_def)

theorem Log_argument_checks_witness:
  "\<not> truthy (JNum (Fin 0)) \<and>
   Log store0 JUndefined (JNum (Fin 0)) JUndefined
     = (store0, Inl (InvalidArgument ''component is required'')) \<and>
   typeof (JBool True) \<noteq> ''string'' \<and> truthy (JBool True) \<and>
   Log store0 (JBool True) (JStr ''Room'') JUndefined
     = (store0, Inl (InvalidArgument ''module name is not a string'')) \<and>
   truthy (JStr ''Room'') \<and> typeof (JStr ''media'') = ''string'' \<and>
   snd (Log store0 (JStr ''media'') (JStr ''Room'') JUndefined)
     \<noteq> Inl (InvalidArgument ''component is required'') \<and>
   snd (Log store0 (JStr ''media'') (JStr ''Room'') JUndefined)
     \<noteq> Inl (InvalidArgument ''module name is not a string'')"
  using Log_argument_checks [of "JNum (Fin 0)" store0 JUndefined JUndefined]
    Log_argument_checks [of "JStr ''Room''" store0 "JBool True" JUndefined]
    Log_argument_checks [of "JStr ''Room''" store0 "JStr ''media''" JUndefined]
  by simp

text \<open>What a successful construction stores.\<close>

lemma Log_result:
  assumes "Log st m component lv = (st1, Inr this)"
  shows "name_function this = get_toString st1 component \<and> name_this this = component \<and>
         moduleName this = m"
proof -
  obtain s1 l1 where d: "(if typeof lv \<noteq> ''object'' then new_object st else (st, lv)) = (s1, l1)"
    by (cases "if typeof lv \<noteq> ''object'' then new_object st else (st, lv)") auto
  show ?thesis
  proof (cases "validateLogLevels s1 l1")
    case (Inl e)
    with assms d show ?thesis
      by (simp add: Log_def split: if_splits del: typeof.simps)
  next
    case (Inr u)
    show ?thesis
    proof (cases l1)
      case (JRef a)
      with assms d Inr
      have "st1 = s1 \<and> this = \<lparr>moduleName = m, logLevels = a,
                                 name_function = get_toString s1 component,
                                 name_this = component\<rparr>"
        by (simp add: Log_def split: if_splits del: typeof.simps) blast+
      then show ?thesis by simp
    qed (use assms d Inr in \<open>simp_all add: Log_def split: if_splits del: typeof.simps\<close>)
  qed
qed

text \<open>
  \<^bold>\<open>Claim C9.\<close> For every levels argument whose \<^verbatim>\<open>typeof\<close> is not \<^verbatim>\<open>'object'\<close> a fresh
  empty object becomes the table and the construction succeeds (next lemma). The claim
  does not hold for \<^verbatim>\<open>null\<close>, whose \<^verbatim>\<open>typeof\<close> is \<^verbatim>\<open>'object'\<close>: \<^verbatim>\<open>null\<close> is kept, and
  \<^verbatim>\<open>Object.keys(null)\<close> raises a TypeError.
\<close>

theorem Log_null_levels:
  "Log store0 (JStr ''media'') (JStr ''Room'') JNull = (store0, Inl TypeError)"
  by (simp add: Log_def validateLogLevels_def)

text \<open>With the empty table, the module resolves to the default level, unless its name
  is that of a property of \<^verbatim>\<open>Object.prototype\<close>: reading the level of a module called
  \<^verbatim>\<open>constructor\<close>, say, raises a TypeError.\<close>

lemma Log_defaults_levels:
  assumes "typeof lv \<noteq> ''object''" and "truthy component" and "typeof m = ''string'' \<or> \<not> truthy m"
  shows "\<exists>st1 this. Log st m component lv = (st1, Inr this) \<and> logLevels this = nxt st \<and>
           props (objs st1 (logLevels this)) = [] \<and>
           (\<forall>a. a \<noteq> nxt st \<longrightarrow> objs st1 a = objs st a) \<and>
           logLevel D st1 this =
             (if ToString st1 m \<in> set Object_prototype_names then Inl TypeError
              else getLevelByName st1 D)"
proof -
  let ?st1 = "fst (new_object st)"
  let ?inst = "\<lparr>moduleName = m, logLevels = nxt st,
                name_function = get_toString ?st1 component, name_this = component\<rparr>"
  have v: "validateLogLevels ?st1 (JRef (nxt st)) = Inr ()"
    by (simp add: validateLogLevels_def new_object_def)
  from assms have "Log st m component lv = (?st1, Inr ?inst)"
    by (simp add: Log_def v del: typeof.simps)
      (simp add: new_object_def v [unfolded new_object_def, simplified])
  moreover have "props (objs ?st1 (nxt st)) = []" by (simp add: new_object_def)
  moreover have "\<forall>a. a \<noteq> nxt st \<longrightarrow> objs ?st1 a = objs st a" by (simp add: new_object_def)
  moreover have "logLevel D ?st1 ?inst =
      (if ToString ?st1 m \<in> set Object_prototype_names then Inl TypeError
       else getLevelByName ?st1 D)"
    by (simp add: logLevel_def read_property_def new_object_def)
  ultimately show ?thesis by simp
qed

text \<open>
  \<^bold>\<open>Claim C8, as amended.\<close> What the constructor captures is the \<^verbatim>\<open>toString\<close> function
  that the component has at construction, bound to the component; no string is
  captured. Every read of \<^verbatim>\<open>name\<close> calls that function on the component as it is at the
  time of the read. So a later replacement of the component's \<^verbatim>\<open>toString\<close> does not
  change what \<^verbatim>\<open>name\<close> yields, as long as the properties of the component stay the
  same; a change of the properties that the captured function reads does change it.
\<close>

theorem name_bound_function:
  assumes "Log st m component lv = (st1, Inr this)"
  shows "(\<forall>st'. Log_name st' this = call_toString st' (get_toString st1 component) component) \<and>
         (\<forall>st'. own_props st' component = own_props st1 component \<longrightarrow>
                Log_name st' this = Log_name st1 this)"
proof -
  from Log_result [OF assms]
  have n: "Log_name st' this = call_toString st' (get_toString st1 component) component" for st'
    by (simp add: Log_name_def)
  have c: "call_toString st' f component = call_toString st1 f component"
    if "own_props st' component = own_props st1 component" for st' f
    using that by (cases f) simp_all
  have "Log_name st' this = Log_name st1 this"
    if "own_props st' component = own_props st1 component" for st'
    unfolding n by (rule c [OF that])
  with n show ?thesis by blast
qed

lemma store_room_obj:
  "objs store_room 2 = \<lparr>props = [(''sid'', JStr ''A'')], toStringMethod = OwnToString room_toString\<rparr>"
  "objs store_room 0 = \<lparr>props = [], toStringMethod = BuiltinToString\<rparr>"
  by (simp_all add: store_room_def)

lemma Log_store_room:
  "Log store_room (JStr ''media'') (JRef 2) (JRef 0) = (store_room, Inr inst_room)"
  by (simp add: Log_def validateLogLevels_def store_room_obj inst_room_def)

text \<open>The claim as it was stated fails: the component prints \<^verbatim>\<open>Room A\<close> at construction;
  once its \<^verbatim>\<open>sid\<close> is \<^verbatim>\<open>'B'\<close> it prints \<^verbatim>\<open>Room B\<close>, and so does \<^verbatim>\<open>name\<close>.\<close>

theorem name_bound_function_counterexample:
  "Log store_room (JStr ''media'') (JRef 2) (JRef 0) = (store_room, Inr inst_room) \<and>
   Log_name store_room inst_room = ''Room A'' \<and>
   ToString (set_property store_room 2 ''sid'' (JStr ''B'')) (JRef 2) = ''Room B'' \<and>
   Log_name (set_property store_room 2 ''sid'' (JStr ''B'')) inst_room = ''Room B''"
  by (simp add: Log_store_room Log_name_def inst_room_def store_room_obj room_toString_def
      ToString_def set_property_def)

theorem name_bound_function_witness:
  "Log store_room (JStr ''media'') (JRef 2) (JRef 0) = (store_room, Inr inst_room) \<and>
   Log_name (set_property store_room 2 ''sid'' (JStr ''B'')) inst_room
     = room_toString [(''sid'', JStr ''B'')] \<and>
   Log_name (store_room\<lparr>objs := (objs store_room)
               (2 := (objs store_room 2)\<lparr>toStringMethod := BuiltinToString\<rparr>)\<rparr>) inst_room
     = Log_name store_room inst_room"
proof -
  let ?moved = "set_property store_room 2 ''sid'' (JStr ''B'')"
  let ?replaced = "store_room\<lparr>objs := (objs store_room)
                     (2 := (objs store_room 2)\<lparr>toStringMethod := BuiltinToString\<rparr>)\<rparr>"
  note t = name_bound_function [OF Log_store_room]
  from t have 1: "Log_name ?moved inst_room
      = call_toString ?moved (get_toString store_room (JRef 2)) (JRef 2)"
    by blast
  from t have 2: "own_props ?replaced (JRef 2) = own_props store_room (JRef 2) \<longrightarrow>
      Log_name ?replaced inst_room = Log_name store_room inst_room"
    by blast
  have 3: "own_props ?replaced (JRef 2) = own_props store_room (JRef 2)"
    by simp
  have 4: "call_toString ?moved (get_toString store_room (JRef 2)) (JRef 2)
      = room_toString [(''sid'', JStr ''B'')]"
    by (simp add: store_room_obj set_property_def)
  from 1 2 3 4 Log_store_room show ?thesis by simp
qed

section \<open>Failures of validation\<close>

lemma setLevels_invalid:
  assumes "Object_keys st levels = Inr ks"
    and "find (\<lambda>k. \<not> valid_level_value (get_property st levels k)) ks = Some k"
  shows "setLevels st this levels =
           (st, Inl (if typeof (get_property st levels k) = ''string''
                     then InvalidArgument INVALID_LOG_LEVEL_MESSAGE else TypeError))"
  using assms by (simp add: setLevels_def validateLogLevels_find)

lemma Log_invalid:
  assumes "Object_keys st levels = Inr ks"
    and "find (\<lambda>k. \<not> valid_level_value (get_property st levels k)) ks = Some k"
    and "truthy component" and "typeof m = ''string'' \<or> \<not> truthy m"
    and "typeof levels = ''object''"
  shows "Log st m component levels =
           (st, Inl (if typeof (get_property st levels k) = ''string''
                     then InvalidArgument INVALID_LOG_LEVEL_MESSAGE else TypeError))"
  using assms by (auto simp add: Log_def validateLogLevels_find simp del: typeof.simps)

text \<open>
  \<^bold>\<open>Claim C10, as amended.\<close> Validation visits the entries in the order of
  \<^verbatim>\<open>Object.keys\<close> and stops at the first whose value is not a string naming a level.
  When the value of that entry is not a string (the number 2, say), validation raises
  a TypeError, and so do \<open>setLevels\<close> and the construction (given a truthy component and
  a module name that is a string or falsy), leaving the store as it was; when it is a
  string, they raise the InvalidArgument error that lists the names. A value that is
  not a string and comes after such a string is never looked at. The InvalidArgument
  error of validation is only ever produced by an entry whose value is a string.
\<close>

theorem validation_error_kind:
  assumes "Object_keys st levels = Inr ks"
  shows "(find (\<lambda>k. \<not> valid_level_value (get_property st levels k)) ks = Some k \<longrightarrow>
            validateLogLevels st levels =
              Inl (if typeof (get_property st levels k) = ''string''
                   then InvalidArgument INVALID_LOG_LEVEL_MESSAGE else TypeError) \<and>
            setLevels st this levels =
              (st, Inl (if typeof (get_property st levels k) = ''string''
                        then InvalidArgument INVALID_LOG_LEVEL_MESSAGE else TypeError)) \<and>
            (truthy component \<and> (typeof m = ''string'' \<or> \<not> truthy m) \<and> typeof levels = ''object'' \<longrightarrow>
               Log st m component levels =
                 (st, Inl (if typeof (get_property st levels k) = ''string''
                           then InvalidArgument INVALID_LOG_LEVEL_MESSAGE else TypeError)))) \<and>
         (validateLogLevels st levels = Inl (InvalidArgument msg) \<longrightarrow>
            (\<exists>k'. find (\<lambda>k. \<not> valid_level_value (get_property st levels k)) ks = Some k' \<and>
                  typeof (get_property st levels k') = ''string''))"
proof -
  have "validateLogLevels st levels = Inl (InvalidArgument msg) \<Longrightarrow>
          \<exists>k'. find (\<lambda>k. \<not> valid_level_value (get_property st levels k)) ks = Some k' \<and>
               typeof (get_property st levels k') = ''string''"
    using assms by (auto simp add: validateLogLevels_find split: option.splits if_splits)
  then show ?thesis
    using setLevels_invalid [OF assms, of k this] Log_invalid [OF assms, of k component m]
    by (auto simp add: validateLogLevels_find [OF assms] simp del: typeof.simps)
qed

text \<open>The claim as it was stated fails: the object at address 2 of \<open>store1\<close> holds the
  number 2 for \<^verbatim>\<open>signaling\<close>, after the string \<^verbatim>\<open>'bogus'\<close> for \<^verbatim>\<open>media\<close>, and \<open>setLevels\<close>
  raises InvalidArgument on it, not a TypeError.\<close>

theorem validation_error_kind_counterexample:
  "get_property store1 (JRef 2) ''signaling'' = JNum (Fin 2) \<and>
   setLevels store1 inst0 (JRef 2) = (store1, Inl (InvalidArgument INVALID_LOG_LEVEL_MESSAGE))"
  by (simp add: setLevels_def validateLogLevels_def get_property_def store1_props
      toUpperCase_examples validateLogLevel_def LOG_LEVELS_SET_keys LOG_LEVEL_NAMES_eq
      INVALID_ARGUMENT_clone_def)

theorem validation_error_kind_witness:
  "Object_keys store1 (JRef 3) = Inr [''signaling'', ''media''] \<and>
   find (\<lambda>k. \<not> valid_level_value (get_property store1 (JRef 3) k)) [''signaling'', ''media'']
     = Some ''signaling'' \<and>
   validateLogLevels store1 (JRef 3) = Inl TypeError \<and>
   setLevels store1 inst0 (JRef 3) = (store1, Inl TypeError) \<and>
   Log store1 (JStr ''media'') (JStr ''Room'') (JRef 3) = (store1, Inl TypeError) \<and>
   validateLogLevels store1 (JRef 2) = Inl (InvalidArgument INVALID_LOG_LEVEL_MESSAGE) \<and>
   typeof (get_property store1 (JRef 2) ''media'') = ''string''"
proof -
  have k3: "Object_keys store1 (JRef 3) = Inr [''signaling'', ''media'']"
    and k2: "Object_keys store1 (JRef 2) = Inr [''media'', ''signaling'']"
    by (simp_all add: store1_props)
  have g: "get_property store1 (JRef 3) ''signaling'' = JNum (Fin 2)"
    "get_property store1 (JRef 2) ''media'' = JStr ''bogus''"
    by (simp_all add: get_property_def store1_props)
  have f3: "find (\<lambda>k. \<not> valid_level_value (get_property store1 (JRef 3) k)) [''signaling'', ''media'']
     = Some ''signaling''"
    by (simp add: g valid_examples)
  have f2: "find (\<lambda>k. \<not> valid_level_value (get_property store1 (JRef 2) k)) [''media'', ''signaling'']
     = Some ''media''"
    by (simp add: g valid_examples)
  from k3 f3 g f2 show ?thesis
    using validation_error_kind [OF k3, of "''signaling''" inst0 "JStr ''Room''" "JStr ''media''"]
      validation_error_kind [OF k2, of "''media''" inst0 "JStr ''Room''" "JStr ''media''"]
    by simp
qed

section \<open>\<open>setLevels\<close> and the store\<close>

lemma get_set_same:
  "get_property (set_property st t k0 v) (JRef t) k =
     (if k = k0 \<and> assignable st t k0 then v else get_property st (JRef t) k)"
  by (cases "k0 = ''__proto__'' \<and> k0 \<notin> set (map fst (props (objs st t)))")
    (auto simp add: get_property_def set_property_def assignable_def update_conv')

lemma own_props_set_other:
  "src \<noteq> JRef t \<Longrightarrow> own_props (set_property st t k v) src = own_props st src"
  by (cases src) (simp_all add: set_property_def)

text \<open>Writing to the target a value just read from the source leaves every property of
  the source as it was, also when the source is the target.\<close>

lemma get_set_source:
  "get_property (set_property st t k0 (get_property st src k0)) src k = get_property st src k"
proof (cases "src = JRef t")
  case True
  then show ?thesis by (simp add: get_set_same)
next
  case False
  then show ?thesis by (simp add: get_property_def own_props_set_other)
qed

lemma set_property_keys:
  "fst ` set (props (objs (set_property st t k v) t)) =
     fst ` set (props (objs st t)) \<union> (if assignable st t k then {k} else {})"
  by (auto simp add: set_property_def assignable_def dom_update)

lemma assignable_set: "assignable (set_property st t k0 v) t k = assignable st t k"
  using set_property_keys [of st t k0 v] by (auto simp add: assignable_def split: if_splits)

lemma assign_keys_get:
  "get_property (assign_keys st t src ks) (JRef t) k =
     (if k \<in> set ks \<and> assignable st t k then get_property st src k
      else get_property st (JRef t) k)"
proof (induction ks arbitrary: st)
  case Nil
  show ?case by simp
next
  case (Cons k0 ks)
  let ?st1 = "set_property st t k0 (get_property st src k0)"
  have "get_property (assign_keys ?st1 t src ks) (JRef t) k =
          (if k \<in> set ks \<and> assignable ?st1 t k then get_property ?st1 src k
           else get_property ?st1 (JRef t) k)"
    by (rule Cons.IH)
  then show ?case by (auto simp add: get_set_source get_set_same assignable_set)
qed

lemma assign_keys_frame:
  "nxt (assign_keys st t src ks) = nxt st \<and>
   toStringMethod (objs (assign_keys st t src ks) a) = toStringMethod (objs st a) \<and>
   (a \<noteq> t \<longrightarrow> objs (assign_keys st t src ks) a = objs st a)"
  by (induction ks arbitrary: st) (simp_all add: set_property_def)

lemma assign_keys_keys:
  "fst ` set (props (objs (assign_keys st t src ks) t)) =
     fst ` set (props (objs st t)) \<union> {k \<in> set ks. assignable st t k}"
proof (induction ks arbitrary: st)
  case Nil
  show ?case by simp
next
  case (Cons k0 ks)
  let ?st1 = "set_property st t k0 (get_property st src k0)"
  have "fst ` set (props (objs (assign_keys ?st1 t src ks) t)) =
     fst ` set (props (objs ?st1 t)) \<union> {k \<in> set ks. assignable ?st1 t k}"
    by (rule Cons.IH)
  then show ?case by (auto simp add: set_property_keys assignable_set split: if_splits)
qed

lemma Object_assign_keys:
  assumes "Object_keys st levels = Inr ks"
  shows "Object_assign st t levels = assign_keys st t levels ks"
  using assms by (cases levels) auto

lemma Object_assign_get:
  assumes "Object_keys st levels = Inr ks"
  shows "get_property (Object_assign st t levels) (JRef t) k =
           (if k \<in> set ks \<and> assignable st t k then get_property st levels k
            else get_property st (JRef t) k)"
  unfolding Object_assign_keys [OF assms] by (rule assign_keys_get)

lemma Object_assign_frame:
  "nxt (Object_assign st t levels) = nxt st \<and>
   toStringMethod (objs (Object_assign st t levels) a) = toStringMethod (objs st a) \<and>
   (a \<noteq> t \<longrightarrow> objs (Object_assign st t levels) a = objs st a)"
  by (cases levels) (simp_all add: assign_keys_frame)

text \<open>A key that is not assignable leaves the store exactly as it was.\<close>

lemma set_property_inherited_setter:
  "\<not> assignable st t k \<Longrightarrow> set_property st t k v = st"
  by (simp add: set_property_def assignable_def)

text \<open>Validation comes before the merge. Whenever \<open>setLevels\<close> fails, the store, and so
  the shared table, is exactly as before, and the error is the InvalidArgument error
  that lists the names or a TypeError. If the value of some entry is not a string
  naming a level, \<open>setLevels\<close> fails; the error is InvalidArgument when all the values
  are strings. If every value names a level, \<open>setLevels\<close> returns the instance, every
  assignable key of the argument then holds the argument's value in the shared table,
  the other keys of the table hold what they held, and no other object has changed.\<close>

lemma setLevels_validate_then_merge:
  "(setLevels st this levels = (st', Inl e) \<longrightarrow>
      st' = st \<and> (e = InvalidArgument INVALID_LOG_LEVEL_MESSAGE \<or> e = TypeError)) \<and>
   (Object_keys st levels = Inr ks \<and> (\<exists>k\<in>set ks. \<not> valid_level_value (get_property st levels k)) \<longrightarrow>
      (\<exists>e'. setLevels st this levels = (st, Inl e') \<and>
            ((\<forall>k\<in>set ks. typeof (get_property st levels k) = ''string'') \<longrightarrow>
               e' = InvalidArgument INVALID_LOG_LEVEL_MESSAGE))) \<and>
   (Object_keys st levels = Inr ks \<and> (\<forall>k\<in>set ks. valid_level_value (get_property st levels k)) \<longrightarrow>
      (\<exists>st2. setLevels st this levels = (st2, Inr this) \<and>
         (\<forall>k. get_property st2 (JRef (logLevels this)) k =
                (if k \<in> set ks \<and> assignable st (logLevels this) k then get_property st levels k
                 else get_property st (JRef (logLevels this)) k)) \<and>
         (\<forall>a. a \<noteq> logLevels this \<longrightarrow> objs st2 a = objs st a)))"
proof -
  have 1: "st' = st \<and> (e = InvalidArgument INVALID_LOG_LEVEL_MESSAGE \<or> e = TypeError)"
    if "setLevels st this levels = (st', Inl e)"
  proof -
    from that have "st' = st" and "validateLogLevels st levels = Inl e"
      by (auto simp add: setLevels_def split: sum.splits)
    with validateLogLevels_errors [of st levels e] show ?thesis by auto
  qed
  have 2: "\<exists>e'. setLevels st this levels = (st, Inl e') \<and>
            ((\<forall>k\<in>set ks. typeof (get_property st levels k) = ''string'') \<longrightarrow>
               e' = InvalidArgument INVALID_LOG_LEVEL_MESSAGE)"
    if a: "Object_keys st levels = Inr ks"
      and b: "\<exists>k\<in>set ks. \<not> valid_level_value (get_property st levels k)"
  proof -
    from b obtain k where f: "find (\<lambda>k. \<not> valid_level_value (get_property st levels k)) ks = Some k"
      by (cases "find (\<lambda>k. \<not> valid_level_value (get_property st levels k)) ks")
        (auto simp add: find_None_iff)
    from f have "k \<in> set ks" by (auto dest: find_Some_mem)
    with a f show ?thesis by (auto simp add: setLevels_invalid simp del: typeof.simps)
  qed
  have 3: "\<exists>st2. setLevels st this levels = (st2, Inr this) \<and>
         (\<forall>k. get_property st2 (JRef (logLevels this)) k =
                (if k \<in> set ks \<and> assignable st (logLevels this) k then get_property st levels k
                 else get_property st (JRef (logLevels this)) k)) \<and>
         (\<forall>a. a \<noteq> logLevels this \<longrightarrow> objs st2 a = objs st a)"
    if a: "Object_keys st levels = Inr ks"
      and b: "\<forall>k\<in>set ks. valid_level_value (get_property st levels k)"
  proof -
    from a b have "validateLogLevels st levels = Inr ()"
      using validateLogLevels_ok_iff [of st levels "()"] by auto
    then have s: "setLevels st this levels = (Object_assign st (logLevels this) levels, Inr this)"
      by (simp add: setLevels_def)
    from a show ?thesis unfolding s by (simp add: Object_assign_get Object_assign_frame)
  qed
  from 1 2 3 show ?thesis by blast
qed

text \<open>
  \<^bold>\<open>Claim C3.\<close> \<open>setLevels\<close> is documented to throw \<^verbatim>\<open>INVALID_ARGUMENT\<close>, and the claim
  says that it fails with InvalidArgument whenever the value of an entry is not a
  recognized level name. The code calls \<^verbatim>\<open>toUpperCase\<close> on the value without looking at
  its type: with the number 2 as the level of \<^verbatim>\<open>media\<close>, \<open>setLevels\<close> raises a TypeError.
  The table is left as it was, as the claim says.
\<close>

theorem setLevels_number_value:
  "get_property store1 (JRef 4) ''media'' = JNum (Fin 2) \<and>
   setLevels store1 inst0 (JRef 4) = (store1, Inl TypeError)"
  by (simp add: setLevels_def validateLogLevels_def get_property_def store1_props)

section \<open>The effective level is a rank\<close>

lemma Log_property_rank:
  "n \<in> set LOG_LEVEL_NAMES \<Longrightarrow> \<exists>l. 0 \<le> l \<and> l \<le> 4 \<and> Log_property n = Fin l"
  by (auto simp add: LOG_LEVEL_NAMES_eq Log_property_examples)

lemma valid_level_rank:
  assumes "valid_level_value v"
  shows "truthy v \<and> (\<exists>l. 0 \<le> l \<and> l \<le> 4 \<and> getLevelByName st v = Inr (Fin l))"
proof -
  from valid_level_value_level [OF assms, of st] obtain s where
    s: "toUpperCase s \<in> set LOG_LEVEL_NAMES" "truthy v"
       "getLevelByName st v = Inr (Log_property (toUpperCase s))"
    by blast
  from Log_property_rank [OF s(1)] s show ?thesis by auto
qed

text \<open>Reading a key that the object owns yields the value it holds; reading any other
  key goes to \<^verbatim>\<open>Object.prototype\<close>.\<close>

lemma read_property_own:
  "k \<in> fst ` set (props (objs st t)) \<Longrightarrow> read_property st t k = Data (get_property st (JRef t) k)"
  by (cases "map_of (props (objs st t)) k")
    (auto simp add: read_property_def get_property_def map_of_eq_None_iff)

lemma read_property_not_own:
  "k \<notin> fst ` set (props (objs st t)) \<Longrightarrow>
     read_property st t k = (if k \<in> set Object_prototype_names then Inherited else Data JUndefined)"
proof -
  assume "k \<notin> fst ` set (props (objs st t))"
  then have "map_of (props (objs st t)) k = None" by (simp add: map_of_eq_None_iff)
  then show ?thesis by (simp add: read_property_def)
qed

text \<open>With a valid table and a default that names a level, reading the effective level
  of a module yields one of the ranks 0 to 4 when the table owns an entry for the
  module or the name of the module is not that of a property of \<^verbatim>\<open>Object.prototype\<close>.
  When the table has no entry of its own for a module named like such a property,
  reading the level raises a TypeError.\<close>

lemma effective_level_defined:
  assumes t: "valid_table st (logLevels this)" and d: "valid_level_value D"
  shows "(ToString st (moduleName this) \<in> fst ` set (props (objs st (logLevels this))) \<or>
          ToString st (moduleName this) \<notin> set Object_prototype_names \<longrightarrow>
            (\<exists>l. 0 \<le> l \<and> l \<le> 4 \<and> logLevel D st this = Inr (Fin l))) \<and>
         (ToString st (moduleName this) \<notin> fst ` set (props (objs st (logLevels this))) \<and>
          ToString st (moduleName this) \<in> set Object_prototype_names \<longrightarrow>
            logLevel D st this = Inl TypeError)"
proof (cases "ToString st (moduleName this) \<in> fst ` set (props (objs st (logLevels this)))")
  case True
  let ?v = "get_property st (JRef (logLevels this)) (ToString st (moduleName this))"
  from t True have "valid_level_value ?v" by (auto simp add: valid_table_def)
  from valid_level_rank [OF this, of st] True show ?thesis
    by (simp add: logLevel_def read_property_own)
next
  case False
  with valid_level_rank [OF d, of st] show ?thesis
    by (simp add: logLevel_def read_property_not_own)
qed

text \<open>The table of a constructed instance is valid, and \<open>setLevels\<close> keeps it valid.\<close>

lemma Log_valid_table:
  assumes "Log st m component lv = (st1, Inr this)"
  shows "valid_table st1 (logLevels this)"
proof -
  obtain s1 l1 where d: "(if typeof lv \<noteq> ''object'' then new_object st else (st, lv)) = (s1, l1)"
    by (cases "if typeof lv \<noteq> ''object'' then new_object st else (st, lv)") auto
  show ?thesis
  proof (cases "validateLogLevels s1 l1")
    case (Inl e)
    with assms d show ?thesis
      by (simp add: Log_def split: if_splits del: typeof.simps)
  next
    case (Inr u)
    show ?thesis
    proof (cases l1)
      case (JRef a)
      with assms d Inr
      have "st1 = s1 \<and> this = \<lparr>moduleName = m, logLevels = a,
                                 name_function = get_toString s1 component,
                                 name_this = component\<rparr>"
        by (simp add: Log_def split: if_splits del: typeof.simps) blast+
      then have e: "st1 = s1 \<and> logLevels this = a" by simp
      from Inr JRef have "\<forall>k\<in>set (map fst (props (objs s1 a))). valid_level_value (get_property s1 (JRef a) k)"
        using validateLogLevels_ok_iff [of s1 "JRef a" u] by simp
      with e show ?thesis by (simp add: valid_table_def)
    qed (use assms d Inr in \<open>simp_all add: Log_def split: if_splits del: typeof.simps\<close>)
  qed
qed

lemma setLevels_valid_table:
  assumes s: "setLevels st this levels = (st', Inr r)" and v: "valid_table st (logLevels this)"
  shows "valid_table st' (logLevels this)"
proof -
  let ?t = "logLevels this"
  from s have ok: "validateLogLevels st levels = Inr ()"
    and st': "st' = Object_assign st ?t levels"
    by (auto simp add: setLevels_def split: sum.splits)
  from ok obtain ks where ks: "Object_keys st levels = Inr ks"
    and valid: "\<forall>k\<in>set ks. valid_level_value (get_property st levels k)"
    using validateLogLevels_ok_iff [of st levels "()"] by auto
  have keys: "fst ` set (props (objs st' ?t)) =
      fst ` set (props (objs st ?t)) \<union> {k \<in> set ks. assignable st ?t k}"
    unfolding st' Object_assign_keys [OF ks] by (rule assign_keys_keys)
  have "valid_level_value (get_property st' (JRef ?t) k)"
    if "k \<in> fst ` set (props (objs st' ?t))" for k
  proof (cases "k \<in> set ks \<and> assignable st ?t k")
    case True
    then have "k \<in> set ks" by simp
    with valid have "valid_level_value (get_property st levels k)" by (rule bspec)
    with True show ?thesis unfolding st' by (simp add: Object_assign_get [OF ks])
  next
    case False
    with that keys have "k \<in> fst ` set (props (objs st ?t))" by auto
    with v have "valid_level_value (get_property st (JRef ?t) k)" by (auto simp add: valid_table_def)
    with False show ?thesis unfolding st' by (auto simp add: Object_assign_get [OF ks])
  qed
  then show ?thesis by (auto simp add: valid_table_def)
qed

section \<open>One table for a family of instances\<close>

text \<open>\<open>createLog\<close> hands the parent's table to the constructor, which keeps it: nothing
  is allocated, nothing is copied.\<close>

lemma createLog_shares:
  assumes "createLog st p m component = (st', Inr c)"
  shows "st' = st \<and> logLevels c = logLevels p \<and> moduleName c = m"
proof -
  from assms
  have "st' = st \<and> c = \<lparr>moduleName = m, logLevels = logLevels p,
         name_function = get_toString st component, name_this = component\<rparr>"
    by (simp add: createLog_def Log_def split: if_splits sum.splits) blast
  then show ?thesis by simp
qed

lemma derived_shares: "derived p c \<Longrightarrow> logLevels c = logLevels p"
  by (induction rule: derived.induct) (auto dest: createLog_shares)

lemma relative_shares: "relative a b \<Longrightarrow> logLevels b = logLevels a"
  by (induction rule: relative.induct) (auto dest: createLog_shares)

lemma derived_relative: "derived p c \<Longrightarrow> relative p c"
  by (induction rule: derived.induct) (auto intro: relative.intros)

text \<open>\<open>createLog\<close> leaves the store as it is and returns an instance that holds the
  table of the instance it was called on; so an instance \<open>c\<close> created from \<open>p\<close>, directly
  or through any number of \<open>createLog\<close> calls, holds the very object that \<open>p\<close> holds (the
  same address), and is a relative of \<open>p\<close>. When any relative \<open>a\<close> of an instance \<open>b\<close>
  succeeds in \<open>setLevels\<close>, and the argument has an entry \<open>v\<close> for the module name of
  \<open>b\<close>, and that name is assignable in the table (it is not \<^verbatim>\<open>__proto__\<close>, or the table
  owns a property of that name), then the effective level of \<open>b\<close>, read from the store
  that \<open>setLevels\<close> leaves, is the rank of \<open>v\<close>, whatever the table held before and
  whatever the default level is.\<close>

lemma shared_level_table:
  "(createLog st0 p0 m component = (st1, Inr c0) \<longrightarrow> st1 = st0 \<and> logLevels c0 = logLevels p0) \<and>
   (derived p c \<longrightarrow> logLevels c = logLevels p \<and> relative p c) \<and>
   (relative a b \<and> setLevels st a levels = (st', Inr r) \<and>
    map_of (own_props st levels) (ToString st' (moduleName b)) = Some v \<and>
    assignable st (logLevels a) (ToString st' (moduleName b)) \<longrightarrow>
      (\<exists>s. v = JStr s \<and> toUpperCase s \<in> set LOG_LEVEL_NAMES \<and>
           logLevel D st' b = Inr (Log_property (toUpperCase s))))"
proof -
  have 0: "st1 = st0 \<and> logLevels c0 = logLevels p0"
    if "createLog st0 p0 m component = (st1, Inr c0)"
    using createLog_shares [OF that] by simp
  have 1: "logLevels c = logLevels p \<and> relative p c" if "derived p c"
    using that by (simp add: derived_shares derived_relative)
  have 2: "\<exists>s. v = JStr s \<and> toUpperCase s \<in> set LOG_LEVEL_NAMES \<and>
           logLevel D st' b = Inr (Log_property (toUpperCase s))"
    if rel: "relative a b" and set: "setLevels st a levels = (st', Inr r)"
      and upd: "map_of (own_props st levels) (ToString st' (moduleName b)) = Some v"
      and asg: "assignable st (logLevels a) (ToString st' (moduleName b))"
  proof -
    let ?k = "ToString st' (moduleName b)"
    let ?t = "logLevels a"
    from set have ok: "validateLogLevels st levels = Inr ()"
      and st': "st' = Object_assign st ?t levels"
      by (auto simp add: setLevels_def split: sum.splits)
    from ok obtain ks where ks: "Object_keys st levels = Inr ks"
      and valid: "\<forall>k\<in>set ks. valid_level_value (get_property st levels k)"
      using validateLogLevels_ok_iff [of st levels "()"] by auto
    from ks have "ks = map fst (own_props st levels)"
      by (cases levels) (simp_all del: own_props.simps)
    moreover from upd have "(?k, v) \<in> set (own_props st levels)" by (rule map_of_SomeD)
    then have "fst (?k, v) \<in> fst ` set (own_props st levels)" by (rule imageI)
    ultimately have k: "?k \<in> set ks" by simp
    from upd have g: "get_property st levels ?k = v" by (simp add: get_property_def)
    from valid k have "valid_level_value (get_property st levels ?k)" by (rule bspec)
    with g have "valid_level_value v" by simp
    from valid_level_value_level [OF this, of st'] obtain s where s: "v = JStr s"
      "toUpperCase s \<in> set LOG_LEVEL_NAMES" "truthy v"
      "getLevelByName st' v = Inr (Log_property (toUpperCase s))" by blast
    from rel have t: "logLevels b = ?t" by (rule relative_shares)
    have keys: "fst ` set (props (objs (Object_assign st ?t levels) ?t)) =
        fst ` set (props (objs st ?t)) \<union> {k \<in> set ks. assignable st ?t k}"
      unfolding Object_assign_keys [OF ks] by (rule assign_keys_keys)
    from k asg have own: "?k \<in> fst ` set (props (objs (Object_assign st ?t levels) ?t))"
      unfolding keys by simp
    from k asg g have "get_property (Object_assign st ?t levels) (JRef ?t) ?k = v"
      by (simp add: Object_assign_get [OF ks])
    with read_property_own [OF own]
    have "read_property (Object_assign st ?t levels) ?t ?k = Data v" by simp
    with st' t have "read_property st' (logLevels b) ?k = Data v" by simp
    with s have "logLevel D st' b = Inr (Log_property (toUpperCase s))"
      by (simp add: logLevel_def)
    with s show ?thesis by simp
  qed
  from 0 1 2 show ?thesis by blast
qed

lemma createLog_child:
  "createLog store1 inst0 (JStr ''signaling'') (JStr ''Track'') = (store1, Inr inst_child)"
  by (simp add: createLog_def Log_def validateLogLevels_def inst0_def inst_child_def store1_props)

lemma setLevels_child:
  "setLevels store1 inst_child (JRef 5) = (Object_assign store1 0 (JRef 5), Inr inst_child)"
proof -
  have "Object_keys store1 (JRef 5) = Inr [''media'', ''signaling'']"
    by (simp add: store1_props)
  moreover have "\<forall>k\<in>set [''media'', ''signaling'']. valid_level_value (get_property store1 (JRef 5) k)"
    by (simp add: get_property_def store1_props valid_examples)
  ultimately have "validateLogLevels store1 (JRef 5) = Inr ()"
    using validateLogLevels_ok_iff [of store1 "JRef 5" "()"] by blast
  then show ?thesis by (simp add: setLevels_def inst_child_def)
qed

text \<open>The child sets \<^verbatim>\<open>{media: 'warn', signaling: 'Off'}\<close>; the parent, whose module is
  \<^verbatim>\<open>media\<close>, is at WARN from then on, and the child at OFF.\<close>

lemma shared_level_table_example:
  "createLog store1 inst0 (JStr ''signaling'') (JStr ''Track'') = (store1, Inr inst_child) \<and>
   derived inst0 inst_child \<and> logLevels inst_child = logLevels inst0 \<and>
   setLevels store1 inst_child (JRef 5) = (Object_assign store1 0 (JRef 5), Inr inst_child) \<and>
   logLevel (JStr ''error'') (Object_assign store1 0 (JRef 5)) inst0 = Inr (Fin 2) \<and>
   logLevel (JStr ''error'') (Object_assign store1 0 (JRef 5)) inst_child = Inr (Fin 4)"
proof -
  let ?st' = "Object_assign store1 0 (JRef 5)"
  have d: "derived inst0 inst_child" by (rule derived.child) (rule createLog_child)
  note t = shared_level_table [where p = inst0 and c = inst_child and a = inst_child
      and st = store1 and levels = "JRef 5" and st' = ?st' and r = inst_child
      and D = "JStr ''error''"]
  from t d have s: "logLevels inst_child = logLevels inst0" by blast
  have r1: "relative inst_child inst_child" by (rule relative.self)
  then have r0: "relative inst_child inst0" using createLog_child by (rule relative.up)
  have m0: "map_of (own_props store1 (JRef 5)) (ToString ?st' (moduleName inst0)) = Some (JStr ''warn'')"
    and m1: "map_of (own_props store1 (JRef 5)) (ToString ?st' (moduleName inst_child)) = Some (JStr ''Off'')"
    by (simp_all add: store1_props ToString_def inst0_def inst_child_def)
  have a0: "assignable store1 (logLevels inst_child) (ToString ?st' (moduleName inst0))"
    and a1: "assignable store1 (logLevels inst_child) (ToString ?st' (moduleName inst_child))"
    by (simp_all add: assignable_def ToString_def inst0_def inst_child_def)
  from t [where b = inst0 and v = "JStr ''warn''"] r0 setLevels_child m0 a0
  have l0: "logLevel (JStr ''error'') ?st' inst0 = Inr (Fin 2)"
    by (simp add: toUpperCase_examples Log_property_examples)
  from t [where b = inst_child and v = "JStr ''Off''"] r1 setLevels_child m1 a1
  have l1: "logLevel (JStr ''error'') ?st' inst_child = Inr (Fin 4)"
    by (simp add: toUpperCase_examples Log_property_examples)
  from createLog_child d s setLevels_child l0 l1 show ?thesis by simp
qed

text \<open>
  \<^bold>\<open>Claim C1.\<close> The claim holds of every module name but one (lemma
  \<open>shared_level_table\<close>). For a module named \<^verbatim>\<open>__proto__\<close> it fails: the instance
  \<open>inst_proto\<close> is created by \<open>createLog\<close> from \<open>inst0\<close> and shares its table; the mapping
  at address 8 has the one entry \<^verbatim>\<open>__proto__\<close> with the level \<^verbatim>\<open>'debug'\<close>, and validation
  accepts it; \<open>setLevels\<close> succeeds and leaves the store, and so the shared table, as it
  was, because the assignment of \<^verbatim>\<open>Object.assign\<close> reaches the setter that the table
  inherits; and the effective level of \<open>inst_proto\<close>, which the claim says is DEBUG from
  then on, cannot be read: the getter finds \<^verbatim>\<open>Object.prototype\<close> under that name and
  raises a TypeError.
\<close>

theorem setLevels_proto_key:
  "createLog store1 inst0 (JStr ''__proto__'') (JStr ''Room'') = (store1, Inr inst_proto) \<and>
   logLevels inst_proto = logLevels inst0 \<and>
   get_property store1 (JRef 8) ''__proto__'' = JStr ''debug'' \<and>
   validateLogLevels store1 (JRef 8) = Inr () \<and>
   setLevels store1 inst0 (JRef 8) = (store1, Inr inst0) \<and>
   logLevel (JStr ''warn'') store1 inst_proto = Inl TypeError"
proof -
  have c: "createLog store1 inst0 (JStr ''__proto__'') (JStr ''Room'') = (store1, Inr inst_proto)"
    by (simp add: createLog_def Log_def validateLogLevels_def inst0_def inst_proto_def store1_props)
  have g: "get_property store1 (JRef 8) ''__proto__'' = JStr ''debug''"
    by (simp add: get_property_def store1_props)
  have "toUpperCase ''debug'' = ''DEBUG''"
    by (simp add: toUpperCase_def toUpperCase_char_def lower_letters_def upper_letters_def)
  then have v: "validateLogLevels store1 (JRef 8) = Inr ()"
    by (simp add: validateLogLevels_def store1_props g validateLogLevel_def LOG_LEVELS_SET_keys
        LOG_LEVEL_NAMES_eq)
  have "Object_assign store1 0 (JRef 8) = store1"
    by (simp add: store1_props g set_property_def)
  with v have s: "setLevels store1 inst0 (JRef 8) = (store1, Inr inst0)"
    by (simp add: setLevels_def inst0_def)
  have l: "logLevel (JStr ''warn'') store1 inst_proto = Inl TypeError"
    by (simp add: logLevel_def inst_proto_def read_property_def store1_props ToString_def
        Object_prototype_names_def)
  from c g v s l show ?thesis by (simp add: inst_proto_def inst0_def)
qed

section \<open>\<open>throw\<close>\<close>

lemma clone_if_supported_cases:
  "clone_if_supported err m =
     (if err = ErrUndefined \<or> err = ErrNull \<or> (\<exists>p. err = ErrObject p CloneNotCallable)
      then Inl TypeError else Inr (raised_error err m))"
proof (cases err)
  case (ErrObject p c)
  then show ?thesis by (cases c) (simp_all add: clone_if_supported_def)
qed (simp_all add: clone_if_supported_def)

text \<open>
  \<^bold>\<open>Claim C7, as amended.\<close> \<open>throwFn\<close> never returns normally, whatever value it is
  given as the error. When that value is \<^verbatim>\<open>undefined\<close> or \<^verbatim>\<open>null\<close>, or an object whose
  \<^verbatim>\<open>clone\<close> is truthy and not a function, the clone step raises a TypeError and nothing
  is logged. Otherwise the error that \<open>throwFn\<close> works with is the result of \<^verbatim>\<open>clone\<close>
  called with the custom message when the value has a \<^verbatim>\<open>clone\<close> function, and the value
  itself when its \<^verbatim>\<open>clone\<close> is absent or falsy. It hands that error to \<open>log\<close> at the rank ERROR, and \<open>log\<close>
  gates it like any message: when the effective level of the instance is at most
  ERROR, exactly one message goes to the ERROR sink; when it is above (OFF), nothing is
  emitted. Then that error is raised. When reading the effective level raises, that
  failure is what the caller gets, and nothing is emitted.
\<close>

theorem throwFn_raises:
  "(\<forall>x. fst (throwFn D now st this err m) \<noteq> Inr x) \<and>
   (err = ErrUndefined \<or> err = ErrNull \<or> (\<exists>p. err = ErrObject p CloneNotCallable) \<longrightarrow>
      throwFn D now st this err m = (Inl TypeError, [])) \<and>
   (err \<noteq> ErrUndefined \<and> err \<noteq> ErrNull \<and> (\<forall>p. err \<noteq> ErrObject p CloneNotCallable) \<longrightarrow>
      (\<forall>e. logLevel D st this = Inl e \<longrightarrow> throwFn D now st this err m = (Inl e, [])) \<and>
      (\<forall>l. logLevel D st this = Inr l \<longrightarrow>
         throwFn D now st this err m =
           (Inl (Thrown (raised_error err m)),
            if num_le l Log_ERROR
            then [(console_error,
                   map Text (split CHR ''T'' now @ [''|'', ''ERROR'', ''in'', Log_name st this @ '':''])
                   @ [Value (raised_error err m)])]
            else [])))"
proof -
  have lv: "Log_levels_at Log_ERROR = Some \<lparr>name = ''ERROR'', logFn = console_error\<rparr>"
    by (simp add: Log_levels_at_def Log_ERROR_def Log_levels_def)
  show ?thesis
    by (cases "logLevel D st this")
      (simp_all add: throwFn_def clone_if_supported_cases log_def lv Let_def)
qed

text \<open>The claim as it was stated fails: on an instance whose module is set to
  \<^verbatim>\<open>'off'\<close>, the error is raised and no message is logged; and with \<^verbatim>\<open>undefined\<close> as the
  error, or an object whose \<^verbatim>\<open>clone\<close> is truthy and not a function, what is raised is a
  TypeError, not the error, and no message is logged.\<close>

theorem throwFn_raises_counterexample:
  "throwFn (JStr ''warn'') ''2016-03-01T09:30:00.000Z'' store1 inst_off
      (ErrObject (JStr ''boom'') NoClone) (JStr ''custom'')
     = (Inl (Thrown (ErrObject (JStr ''boom'') NoClone)), []) \<and>
   throwFn (JStr ''info'') ''2016-03-01T09:30:00.000Z'' store1 inst0 ErrUndefined (JStr ''custom'')
     = (Inl TypeError, []) \<and>
   throwFn (JStr ''info'') ''2016-03-01T09:30:00.000Z'' store1 inst0
      (ErrObject (JStr ''boom'') CloneNotCallable) (JStr ''custom'')
     = (Inl TypeError, [])"
  by (simp add: throwFn_def clone_if_supported_def log_def Log_levels_at_def Log_ERROR_def
      Log_levels_def logLevel_examples)

theorem throwFn_raises_witness:
  "logLevel (JStr ''info'') store1 inst0 = Inr (Fin 1) \<and>
   throwFn (JStr ''info'') ''2016-03-01T09:30:00.000Z'' store1 inst0
      (ErrObject (JStr ''boom'') (CloneFunction (\<lambda>m. ErrObject m NoClone))) (JStr ''custom'')
     = (Inl (Thrown (ErrObject (JStr ''custom'') NoClone)),
        [(console_error,
          [Text ''2016-03-01'', Text ''09:30:00.000Z'', Text ''|'', Text ''ERROR'', Text ''in'',
           Text ''Room:'', Value (ErrObject (JStr ''custom'') NoClone)])]) \<and>
   throwFn (JStr ''info'') ''2016-03-01T09:30:00.000Z'' store1 inst0 (ErrStr ''boom'') (JStr ''custom'')
     = (Inl (Thrown (ErrStr ''boom'')),
        [(console_error,
          [Text ''2016-03-01'', Text ''09:30:00.000Z'', Text ''|'', Text ''ERROR'', Text ''in'',
           Text ''Room:'', Value (ErrStr ''boom'')])]) \<and>
   logLevel (JStr ''warn'') store1 inst_off = Inr (Fin 4) \<and>
   throwFn (JStr ''warn'') ''2016-03-01T09:30:00.000Z'' store1 inst_off
      (ErrObject (JStr ''boom'') NoClone) (JStr ''custom'')
     = (Inl (Thrown (ErrObject (JStr ''boom'') NoClone)), []) \<and>
   logLevel (JStr ''verbose'') store1 inst0 = Inl (InvalidArgument INVALID_LOG_LEVEL_MESSAGE) \<and>
   throwFn (JStr ''verbose'') ''2016-03-01T09:30:00.000Z'' store1 inst0
      (ErrObject (JStr ''boom'') NoClone) (JStr ''custom'')
     = (Inl (InvalidArgument INVALID_LOG_LEVEL_MESSAGE), []) \<and>
   throwFn (JStr ''info'') ''2016-03-01T09:30:00.000Z'' store1 inst0 ErrNull (JStr ''custom'')
     = (Inl TypeError, []) \<and>
   throwFn (JStr ''info'') ''2016-03-01T09:30:00.000Z'' store1 inst0
      (ErrObject (JStr ''boom'') CloneNotCallable) (JStr ''custom'')
     = (Inl TypeError, [])"
proof -
  have "isNaN store1 (JStr ''verbose'')"
    by (simp add: str_numeric_def trim_def isWhiteSpace_def strUnsignedDecimalLiteral_def isDigit_def)
  then have v: "logLevel (JStr ''verbose'') store1 inst0 = Inl (InvalidArgument INVALID_LOG_LEVEL_MESSAGE)"
    by (simp add: logLevel_def inst0_def read_property_def store1_props ToString_def
        Object_prototype_names_def getLevelByName_invalid toUpperCase_examples LOG_LEVEL_NAMES_eq)
  from v Log_name_inst0 [of store1] logLevel_examples show ?thesis
    using throwFn_raises [of "JStr ''info''" "''2016-03-01T09:30:00.000Z''" store1 inst0
        "ErrObject (JStr ''boom'') (CloneFunction (\<lambda>m. ErrObject m NoClone))" "JStr ''custom''"]
      throwFn_raises [of "JStr ''info''" "''2016-03-01T09:30:00.000Z''" store1 inst0
        "ErrStr ''boom''" "JStr ''custom''"]
      throwFn_raises [of "JStr ''warn''" "''2016-03-01T09:30:00.000Z''" store1 inst_off
        "ErrObject (JStr ''boom'') NoClone" "JStr ''custom''"]
      throwFn_raises [of "JStr ''verbose''" "''2016-03-01T09:30:00.000Z''" store1 inst0
        "ErrObject (JStr ''boom'') NoClone" "JStr ''custom''"]
      throwFn_raises [of "JStr ''info''" "''2016-03-01T09:30:00.000Z''" store1 inst0
        ErrNull "JStr ''custom''"]
      throwFn_raises [of "JStr ''info''" "''2016-03-01T09:30:00.000Z''" store1 inst0
        "ErrObject (JStr ''boom'') CloneNotCallable" "JStr ''custom''"]
    by (simp add: Log_ERROR_def)
qed

end
